theory Spec2Isabelle
  imports
    Main
    "HOL-Library.Char_ord"
    "HOL-Library.List_Lexorder"
    "HOL-Library.AList"
    "HOL-Library.Multiset"
    "HOL-Library.Word"
begin

section \<open>OAuth 1.0a client: signing and credential exchange\<close>

text \<open>
  The development follows the current revision of the client (the source file that imports
  \<^verbatim>\<open>net/url\<close>, \<^verbatim>\<open>errors\<close> and \<^verbatim>\<open>crypto/sha1\<close>).
  The file \<^verbatim>\<open>oauth1_client.go\<close> is the older variant of the same functions, written against the
  library of the pre-1.0 language (\<^verbatim>\<open>os.Error\<close>, \<^verbatim>\<open>container/vector\<close>); it is not embedded.

  Go strings are byte sequences, and so is \<^typ>\<open>string\<close>. Go's \<^verbatim>\<open>nil\<close> for an interface or a
  pointer is \<^const>\<open>None\<close>; a \<^verbatim>\<open>nil\<close> map reads as the empty map and every write of the program is
  preceded by \<^verbatim>\<open>make\<close>, so a map that may be \<^verbatim>\<open>nil\<close> is modelled by the map itself.
  The calls of \<^verbatim>\<open>LogDebug\<close>, \<^verbatim>\<open>LogDebugf\<close> and \<^verbatim>\<open>LogInfof\<close> only write to the log and are left out.
\<close>

subsection \<open>Library functions of \<^verbatim>\<open>net/url\<close>, \<^verbatim>\<open>strings\<close>, \<^verbatim>\<open>strconv\<close>\<close>

text \<open>\<^verbatim>\<open>"0123456789ABCDEF"[n]\<close>, for \<open>n < 16\<close>.\<close>

definition upperhex :: "nat \<Rightarrow> char" where
  "upperhex n = ''0123456789ABCDEF'' ! n"

text \<open>The three bytes \<^verbatim>\<open>'%'\<close>, \<^verbatim>\<open>hex[c>>4]\<close>, \<^verbatim>\<open>hex[c&15]\<close>.\<close>

definition percent :: "char \<Rightarrow> string" where
  "percent c = [CHR ''%'', upperhex (of_char c div 16), upperhex (of_char c mod 16)]"

definition alphanum :: "char \<Rightarrow> bool" where
  "alphanum c \<longleftrightarrow>
     (CHR ''a'' \<le> c \<and> c \<le> CHR ''z'') \<or> (CHR ''A'' \<le> c \<and> c \<le> CHR ''Z'') \<or>
     (CHR ''0'' \<le> c \<and> c \<le> CHR ''9'')"

text \<open>
  \<^verbatim>\<open>shouldEscape(c, encodeQueryComponent)\<close> of \<^verbatim>\<open>net/url\<close>. The library changed here: up to
  Go 1.1 the marks of RFC 2396 (\<^verbatim>\<open>! * ' ( )\<close>) were left alone, as the comment in
  \<^verbatim>\<open>oauthEncode\<close> says; since then only the unreserved characters of RFC 3986 are.
  The flag \<open>marks\<close> is \<^const>\<open>True\<close> for the older library.
\<close>

definition oauth_mark :: "char \<Rightarrow> bool" where
  "oauth_mark c \<longleftrightarrow> c \<in> {CHR ''!'', CHR ''*'', CHR 0x27, CHR ''('', CHR '')''}"

definition shouldEscape :: "bool \<Rightarrow> char \<Rightarrow> bool" where
  "shouldEscape marks c \<longleftrightarrow>
     (if alphanum c then False
      else if c \<in> {CHR ''-'', CHR ''_'', CHR ''.'', CHR ''~''} then False
      else if marks \<and> oauth_mark c then False
      else True)"

text \<open>\<^verbatim>\<open>url.QueryEscape\<close>: a space becomes \<^verbatim>\<open>+\<close>, every other escaped byte \<^verbatim>\<open>%XX\<close>.\<close>

definition QueryEscape :: "bool \<Rightarrow> string \<Rightarrow> string" where
  "QueryEscape marks s =
     concat (map (\<lambda>c. if shouldEscape marks c
                        then (if c = CHR '' '' then ''+'' else percent c)
                        else [c]) s)"

text \<open>Go's \<^verbatim>\<open>error\<close> values: \<^verbatim>\<open>errors.New\<close>/\<^verbatim>\<open>fmt.Errorf\<close> texts and the \<^verbatim>\<open>url.EscapeError\<close>
  of a malformed escape. \<^verbatim>\<open>nil\<close> is \<^const>\<open>None\<close> of \<open>error option\<close>.\<close>

datatype error = ErrorString string | EscapeError string

definition ishex :: "char \<Rightarrow> bool" where
  "ishex c \<longleftrightarrow>
     (CHR ''0'' \<le> c \<and> c \<le> CHR ''9'') \<or> (CHR ''a'' \<le> c \<and> c \<le> CHR ''f'') \<or>
     (CHR ''A'' \<le> c \<and> c \<le> CHR ''F'')"

definition unhex :: "char \<Rightarrow> nat" where
  "unhex c =
     (if CHR ''0'' \<le> c \<and> c \<le> CHR ''9'' then of_char c - 48
      else if CHR ''a'' \<le> c \<and> c \<le> CHR ''f'' then of_char c - 97 + 10
      else if CHR ''A'' \<le> c \<and> c \<le> CHR ''F'' then of_char c - 65 + 10
      else 0)"

text \<open>
  \<^verbatim>\<open>unescape(s, encodeQueryComponent)\<close>: the library first checks every \<^verbatim>\<open>%\<close> for two
  hexadecimal digits after it and fails with the offending (at most three) bytes, then decodes;
  the two passes are one recursion here, failing at the same first malformed escape.
\<close>

fun unescape :: "string \<Rightarrow> error + string" where
  "unescape [] = Inr []"
| "unescape (c # cs) =
     (if c = CHR ''%'' then
        (case cs of
           a # b # rest \<Rightarrow>
             if ishex a \<and> ishex b
             then (case unescape rest of
                     Inl e \<Rightarrow> Inl e
                   | Inr t \<Rightarrow> Inr (char_of (unhex a * 16 + unhex b) # t))
             else Inl (EscapeError (take 3 (c # cs)))
         | _ \<Rightarrow> Inl (EscapeError (take 3 (c # cs))))
      else
        (case unescape cs of
           Inl e \<Rightarrow> Inl e
         | Inr t \<Rightarrow> Inr ((if c = CHR ''+'' then CHR '' '' else c) # t)))"

text \<open>\<^verbatim>\<open>url.QueryUnescape\<close> returns the empty string together with the error.\<close>

definition QueryUnescape :: "string \<Rightarrow> string \<times> error option" where
  "QueryUnescape s = (case unescape s of Inl e \<Rightarrow> ([], Some e) | Inr t \<Rightarrow> (t, None))"

text \<open>
  \<^verbatim>\<open>url.Values\<close> is \<^verbatim>\<open>map[string][]string\<close>: an association list with one entry per key.
  The order of the entries stands for one of the orders in which Go may range over the map.
\<close>

type_synonym Values = "(string \<times> string list) list"

definition Values_index :: "Values \<Rightarrow> string \<Rightarrow> string list" where
  "Values_index v key = (case map_of v key of None \<Rightarrow> [] | Some vs \<Rightarrow> vs)"

definition Values_Get :: "Values \<Rightarrow> string \<Rightarrow> string" where
  "Values_Get v key = (case Values_index v key of [] \<Rightarrow> [] | x # _ \<Rightarrow> x)"

definition Values_Set :: "Values \<Rightarrow> string \<Rightarrow> string \<Rightarrow> Values" where
  "Values_Set v key val = AList.update key [val] v"

definition Values_Add :: "Values \<Rightarrow> string \<Rightarrow> string \<Rightarrow> Values" where
  "Values_Add v key val = AList.update key (Values_index v key @ [val]) v"

definition Values_Del :: "Values \<Rightarrow> string \<Rightarrow> Values" where
  "Values_Del v key = AList.delete key v"

text \<open>\<^verbatim>\<open>strings.Cut(s, sep)\<close> for a one-byte separator: the parts before and after its first
  occurrence; without one, all of \<open>s\<close> and the empty string.\<close>

definition Cut_before :: "string \<Rightarrow> char \<Rightarrow> string" where
  "Cut_before s sep = takeWhile (\<lambda>c. c \<noteq> sep) s"

definition Cut_after :: "string \<Rightarrow> char \<Rightarrow> string" where
  "Cut_after s sep = drop (Suc (length (Cut_before s sep))) s"

text \<open>
  \<^verbatim>\<open>parseQuery\<close> of \<^verbatim>\<open>net/url\<close> (Go 1.17 and later): the loop \<^verbatim>\<open>for query != ""\<close> cuts the next
  \<^verbatim>\<open>&\<close>-separated setting off the query; a setting with a semicolon sets the error and is
  skipped, an empty one is skipped, one whose key or value does not unescape is skipped and
  sets the error if none is set.
\<close>

function parseQuery :: "Values \<Rightarrow> error option \<Rightarrow> string \<Rightarrow> Values \<times> error option" where
  "parseQuery m err query =
     (if query = [] then (m, err)
      else
        let setting = Cut_before query CHR ''&''; rest = Cut_after query CHR ''&'' in
        if CHR '';'' \<in> set setting
        then parseQuery m (Some (ErrorString ''invalid semicolon separator in query'')) rest
        else if setting = [] then parseQuery m err rest
        else
          (case QueryUnescape (Cut_before setting CHR ''='') of
             (_, Some err1) \<Rightarrow> parseQuery m (if err = None then Some err1 else err) rest
           | (key, None) \<Rightarrow>
               (case QueryUnescape (Cut_after setting CHR ''='') of
                  (_, Some err1) \<Rightarrow> parseQuery m (if err = None then Some err1 else err) rest
                | (val, None) \<Rightarrow> parseQuery (Values_Add m key val) err rest)))"
  by pat_completeness auto
termination
  by (relation "measure (\<lambda>(m, err, query). length query)") (auto simp: Cut_after_def)

declare parseQuery.simps [simp del]

text \<open>\<^verbatim>\<open>url.ParseQuery\<close>: the map is made before parsing, so it is never \<^verbatim>\<open>nil\<close>.\<close>

definition ParseQuery :: "string \<Rightarrow> Values option \<times> error option" where
  "ParseQuery query = (case parseQuery [] None query of (m, err) \<Rightarrow> (Some m, err))"

text \<open>\<^verbatim>\<open>strings.Join\<close>.\<close>

fun Join :: "string list \<Rightarrow> string \<Rightarrow> string" where
  "Join [] sep = []"
| "Join [x] sep = x"
| "Join (x # y # ys) sep = x @ sep @ Join (y # ys) sep"

text \<open>\<^verbatim>\<open>strings.SplitN(s, sep, 2)\<close> for a one-byte separator: one element when the separator
  does not occur, two otherwise.\<close>

definition SplitN2 :: "string \<Rightarrow> char \<Rightarrow> string list" where
  "SplitN2 s sep =
     (if sep \<in> set s then [Cut_before s sep, Cut_after s sep] else [s])"

text \<open>
  \<^verbatim>\<open>strings.TrimSpace\<close> removes the leading and the trailing white space as
  \<^verbatim>\<open>unicode.IsSpace\<close> defines it on the UTF-8 decoding of the string: the six ASCII characters
  and the encodings of U+0085, U+00A0, U+1680, U+2000 to U+200A, U+2028, U+2029, U+202F, U+205F
  and U+3000. A byte sequence that is not one of these encodings decodes to no white space.
\<close>

definition space_encodings :: "string list" where
  "space_encodings =
     [[CHR 0x09], [CHR 0x0A], [CHR 0x0B], [CHR 0x0C], [CHR 0x0D], [CHR 0x20],
      [CHR 0xC2, CHR 0x85], [CHR 0xC2, CHR 0xA0], [CHR 0xE1, CHR 0x9A, CHR 0x80],
      [CHR 0xE2, CHR 0x80, CHR 0x80], [CHR 0xE2, CHR 0x80, CHR 0x81],
      [CHR 0xE2, CHR 0x80, CHR 0x82], [CHR 0xE2, CHR 0x80, CHR 0x83],
      [CHR 0xE2, CHR 0x80, CHR 0x84], [CHR 0xE2, CHR 0x80, CHR 0x85],
      [CHR 0xE2, CHR 0x80, CHR 0x86], [CHR 0xE2, CHR 0x80, CHR 0x87],
      [CHR 0xE2, CHR 0x80, CHR 0x88], [CHR 0xE2, CHR 0x80, CHR 0x89],
      [CHR 0xE2, CHR 0x80, CHR 0x8A], [CHR 0xE2, CHR 0x80, CHR 0xA8],
      [CHR 0xE2, CHR 0x80, CHR 0xA9], [CHR 0xE2, CHR 0x80, CHR 0xAF],
      [CHR 0xE2, CHR 0x81, CHR 0x9F], [CHR 0xE3, CHR 0x80, CHR 0x80]]"

text \<open>Dropping, as long as there is one, a leading sequence out of a list of non-empty ones.\<close>

function trim_leading :: "string list \<Rightarrow> string \<Rightarrow> string" where
  "trim_leading seqs s =
     (case find (\<lambda>w. w \<noteq> [] \<and> take (length w) s = w) seqs of
        None \<Rightarrow> s
      | Some w \<Rightarrow> trim_leading seqs (drop (length w) s))"
  by pat_completeness auto
termination
proof (relation "measure (\<lambda>(seqs, s). length s)")
  show "wf (measure (\<lambda>(seqs, s). length s))" by simp
next
  fix seqs :: "string list" and s w :: string
  assume "find (\<lambda>w. w \<noteq> [] \<and> take (length w) s = w) seqs = Some w"
  then have "w \<noteq> []" and "take (length w) s = w"
    by (auto simp: find_Some_iff)
  then have "s \<noteq> []" by auto
  with \<open>w \<noteq> []\<close> show "((seqs, drop (length w) s), (seqs, s)) \<in> measure (\<lambda>(seqs, s). length s)"
    by simp
qed

declare trim_leading.simps [simp del]

definition TrimSpace :: "string \<Rightarrow> string" where
  "TrimSpace s =
     rev (trim_leading (map rev space_encodings) (rev (trim_leading space_encodings s)))"

text \<open>\<^verbatim>\<open>strconv.FormatInt(i, 10)\<close> and \<^verbatim>\<open>strconv.FormatUint(u, 16)\<close>.\<close>

fun digits10 :: "nat \<Rightarrow> string" where
  "digits10 n =
     (if n < 10 then [''0123456789'' ! n] else digits10 (n div 10) @ [''0123456789'' ! (n mod 10)])"

declare digits10.simps [simp del]

definition FormatInt10 :: "int \<Rightarrow> string" where
  "FormatInt10 i = (if i < 0 then CHR ''-'' # digits10 (nat (- i)) else digits10 (nat i))"

fun digits16 :: "nat \<Rightarrow> string" where
  "digits16 n =
     (if n < 16 then [''0123456789abcdef'' ! n]
      else digits16 (n div 16) @ [''0123456789abcdef'' ! (n mod 16)])"

declare digits16.simps [simp del]

definition FormatUint16 :: "64 word \<Rightarrow> string" where
  "FormatUint16 u = digits16 (unat u)"

text \<open>\<^verbatim>\<open>base64.StdEncoding\<close>: three bytes give four characters, the last group is padded.\<close>

definition b64 :: "nat \<Rightarrow> char" where
  "b64 n = ''ABCDEFGHIJKLMNOPQRSTUVWXYZabcdefghijklmnopqrstuvwxyz0123456789+/'' ! n"

fun base64_Encode :: "string \<Rightarrow> string" where
  "base64_Encode [] = []"
| "base64_Encode [x] =
     (let a = of_char x in [b64 (a div 4), b64 (a mod 4 * 16), CHR ''='', CHR ''=''])"
| "base64_Encode [x, y] =
     (let a = of_char x; b = of_char y
      in [b64 (a div 4), b64 (a mod 4 * 16 + b div 16), b64 (b mod 16 * 4), CHR ''=''])"
| "base64_Encode (x # y # z # rest) =
     (let a = of_char x; b = of_char y; c = of_char z
      in [b64 (a div 4), b64 (a mod 4 * 16 + b div 16), b64 (b mod 16 * 4 + c div 64),
          b64 (c mod 64)] @ base64_Encode rest)"

text \<open>\<^verbatim>\<open>sort.Strings\<close> orders by \<^verbatim>\<open><\<close> on strings, which compares byte by byte; so does the
  lexicographic order on \<^typ>\<open>string\<close> over the order of \<^typ>\<open>char\<close> by code.\<close>

definition sort_Strings :: "string list \<Rightarrow> string list" where
  "sort_Strings arr = sort arr"

text \<open>\<^verbatim>\<open>Values.Encode\<close>: the settings \<^verbatim>\<open>key=value\<close>, both escaped, in the order of the sorted
  keys, joined by \<^verbatim>\<open>&\<close>.\<close>

definition Values_Encode :: "bool \<Rightarrow> Values \<Rightarrow> string" where
  "Values_Encode marks v =
     Join (concat (map (\<lambda>k. map (\<lambda>val. QueryEscape marks k @ ''='' @ QueryEscape marks val)
                               (Values_index v k))
                       (sort_Strings (map fst v)))) ''&''"

text \<open>\<^verbatim>\<open>time.Time\<close>: seconds since January 1 of year 1 and nanoseconds; the zero value is
  that instant. \<^verbatim>\<open>Unix\<close> counts from 1970.\<close>

record Time =
  sec :: int
  nsec :: nat

definition Time_zero :: Time where
  "Time_zero = \<lparr>sec = 0, nsec = 0\<rparr>"

definition IsZero :: "Time \<Rightarrow> bool" where
  "IsZero t \<longleftrightarrow> sec t = 0 \<and> nsec t = 0"

definition Unix :: "Time \<Rightarrow> int" where
  "Unix t = sec t - 62135596800"

subsection \<open>Credentials, client, environment and state\<close>

record stdAuthToken =
  token :: string
  secret :: string

text \<open>The interface \<^verbatim>\<open>AuthToken\<close>; \<^const>\<open>None\<close> is \<^verbatim>\<open>nil\<close>.\<close>

type_synonym AuthToken = "stdAuthToken option"

record oauth1SecretInfo =
  si_service :: string
  si_token :: string
  si_secret :: string

text \<open>
  The interface \<^verbatim>\<open>OAuth1Client\<close> as the values its methods return, with the current credentials
  that \<^verbatim>\<open>SetCurrentCredentials\<close> replaces. \<^verbatim>\<open>ServiceId\<close> comes from the embedded interface
  \<^verbatim>\<open>OAuth2Client\<close>.
\<close>

record OAuth1Client =
  currentCredentials :: AuthToken
  ServiceId :: string
  Realm :: string
  ConsumerKey :: string
  ConsumerSecret :: string
  RequestUrl :: string
  RequestUrlMethod :: string
  RequestUrlProtected :: bool
  AccessUrl :: string
  AccessUrlMethod :: string
  AccessUrlProtected :: bool
  AuthorizationUrl :: string
  AuthorizedResourceProtected :: bool
  CallbackUrl :: string
  ParseRequestTokenResult :: "string \<Rightarrow> AuthToken \<times> error option"
  ParseAccessTokenResult :: "string \<Rightarrow> AuthToken \<times> error option"

definition SetCurrentCredentials :: "OAuth1Client \<Rightarrow> AuthToken \<Rightarrow> OAuth1Client" where
  "SetCurrentCredentials p val = p\<lparr>currentCredentials := val\<rparr>"

text \<open>A request as \<^verbatim>\<open>http.NewRequest\<close> is given it, and the header set on it afterwards.\<close>

record Request =
  Method :: string
  URL :: string
  Header :: Values
  Body :: "string option"

text \<open>A response is read only through its body: \<^verbatim>\<open>nil\<close>, or what \<^verbatim>\<open>ioutil.ReadAll\<close>
  returns for it (the bytes read and the error).\<close>

datatype Response = Response "(string \<times> error option) option"

text \<open>Of the callback request the program reads \<^verbatim>\<open>req.URL.Query()\<close> only.\<close>

record Callback =
  RawQuery :: string

text \<open>
  What the program takes from outside: the library's generation (\<open>old_marks\<close>, see
  \<^const>\<open>shouldEscape\<close>), the clock, the random source that seeds the nonce counter, HMAC-SHA1
  (key, then message), \<^verbatim>\<open>url.Parse\<close> (the raw query of the parsed URL, \<^const>\<open>None\<close> when
  \<^verbatim>\<open>Parse\<close> returns \<^verbatim>\<open>nil\<close>), the error with which \<^verbatim>\<open>http.NewRequest\<close> refuses a method and URL,
  and the functions \<^verbatim>\<open>splitUrl\<close>, \<^verbatim>\<open>MakeUrl\<close> and \<^verbatim>\<open>MakeRequest\<close> (the transport), which this
  package declares outside the files at hand.
\<close>

record env =
  old_marks :: bool
  now :: Time
  rand64 :: "64 word"
  hmac_sha1 :: "string \<Rightarrow> string \<Rightarrow> string"
  url_Parse_RawQuery :: "string \<Rightarrow> string option"
  NewRequest_error :: "string \<Rightarrow> string \<Rightarrow> error option"
  splitUrl :: "string \<Rightarrow> Values \<Rightarrow> string \<times> Values"
  MakeUrl :: "string \<Rightarrow> Values \<Rightarrow> string"
  MakeRequest :: "OAuth1Client \<Rightarrow> Request \<Rightarrow> Response option \<times> error option"

text \<open>The package's variables, and the requests handed to the transport so far.\<close>

record world =
  nonceCounter :: "64 word"
  oauth1TokenSecretMap :: "string \<rightharpoonup> oauth1SecretInfo"
  sent :: "Request list"

text \<open>The constant \<^verbatim>\<open>GET\<close> is declared outside the files at hand; the older variant writes
  the literal \<^verbatim>\<open>"GET"\<close> in its place.\<close>

definition GET :: string where
  "GET = ''GET''"

subsection \<open>The OAuth percent-encoder\<close>

text \<open>
  \<^verbatim>\<open>oauthEncode\<close>: the result of \<^verbatim>\<open>url.QueryEscape\<close> is scanned for the five marks; when there is
  one, the string is rebuilt with each mark replaced by its three-byte escape. (The first loop
  ranges over runes, the second over bytes; the escaped string is ASCII, so they agree.)
\<close>

definition oauthEncode :: "bool \<Rightarrow> string \<Rightarrow> string" where
  "oauthEncode marks text =
     (let s = QueryEscape marks text;
          count = length (filter oauth_mark s)
      in if count > 0
         then concat (map (\<lambda>c. if oauth_mark c then percent c else [c]) s)
         else s)"

text \<open>
  The encoder as the specification words it: a byte of the unreserved set
  \<^verbatim>\<open>A-Z a-z 0-9 - . _ ~\<close> stands for itself, every other byte is percent-encoded with
  uppercase hexadecimal digits.
\<close>

definition unreserved :: "char \<Rightarrow> bool" where
  "unreserved c \<longleftrightarrow> alphanum c \<or> c \<in> {CHR ''-'', CHR ''.'', CHR ''_'', CHR ''~''}"

definition spec_oauthEncode :: "string \<Rightarrow> string" where
  "spec_oauthEncode text = concat (map (\<lambda>c. if unreserved c then [c] else percent c) text)"

subsection \<open>Signing\<close>

text \<open>\<^verbatim>\<open>newNonce\<close>: a counter at zero is seeded from the random source first (a failed read
  leaves it at zero); the counter wraps at 64 bits.\<close>

definition newNonce :: "env \<Rightarrow> world \<Rightarrow> string \<times> world" where
  "newNonce e w =
     (let counter = (if nonceCounter w = 0 then rand64 e else nonceCounter w);
          result = FormatUint16 counter
      in (result, w\<lparr>nonceCounter := counter + 1\<rparr>))"

definition getKeys :: "Values \<Rightarrow> string list" where
  "getKeys m = map fst m"

definition getSortedKeys :: "Values \<Rightarrow> string list" where
  "getSortedKeys m = sort_Strings (getKeys m)"

text \<open>\<^verbatim>\<open>u.Query()\<close> parses the raw query and drops the error.\<close>

definition URL_Query :: "string \<Rightarrow> Values" where
  "URL_Query raw = (case fst (ParseQuery raw) of None \<Rightarrow> [] | Some v \<Rightarrow> v)"

text \<open>The loop \<^verbatim>\<open>for _, v := range arr { params.Add(k, v) }\<close>.\<close>

definition add_values :: "string \<Rightarrow> string list \<Rightarrow> Values \<Rightarrow> Values" where
  "add_values k arr params = fold (\<lambda>v ps. Values_Add ps k v) arr params"

text \<open>
  The parameter set of \<^verbatim>\<open>oauth1PrepareRequest\<close> before it is signed (from
  \<^verbatim>\<open>theurl, _ := url.Parse(uri)\<close> to the loop over \<^verbatim>\<open>additional_params\<close>), for the
  time stamp and nonce already chosen.
\<close>

definition oauth1PrepareRequest_params ::
  "env \<Rightarrow> OAuth1Client \<Rightarrow> AuthToken \<Rightarrow> string \<Rightarrow> Values \<Rightarrow> Time \<Rightarrow> string \<Rightarrow> Values" where
  "oauth1PrepareRequest_params e p credentials uri additional_params timestamp nonce =
     (let theurl = url_Parse_RawQuery e uri;
          params = [];
          params = (if length (Realm p) > 0 then Values_Set params ''realm'' (Realm p)
                    else params);
          params = Values_Set params ''oauth_consumer_key'' (ConsumerKey p);
          params = Values_Set params ''oauth_signature_method'' ''HMAC-SHA1'';
          params = Values_Set params ''oauth_timestamp'' (FormatInt10 (Unix timestamp));
          params = Values_Set params ''oauth_nonce'' nonce;
          params = Values_Set params ''oauth_version'' ''1.0'';
          no_token = (if length (CallbackUrl p) > 0
                      then Values_Set params ''oauth_callback'' (CallbackUrl p)
                      else params);
          params = (case credentials of
                      None \<Rightarrow> no_token
                    | Some c \<Rightarrow>
                        if length (token c) > 0 then Values_Set params ''oauth_token'' (token c)
                        else no_token);
          params = (case theurl of
                      None \<Rightarrow> params
                    | Some raw \<Rightarrow>
                        fold (\<lambda>(k, arr) ps. add_values k arr ps) (URL_Query raw) params)
      in fold (\<lambda>(k, arr) ps.
                 if length arr > 0 then add_values k arr (Values_Del ps k) else ps)
           additional_params params)"

text \<open>The loops that fill \<^verbatim>\<open>params_arr\<close>: for every sorted key, for every value of it, the
  encoded key and the encoded value joined by \<^verbatim>\<open>=\<close>.\<close>

definition params_arr :: "bool \<Rightarrow> Values \<Rightarrow> string list" where
  "params_arr m params =
     concat (map (\<lambda>k. map (\<lambda>v. Join [oauthEncode m k, oauthEncode m v] ''='')
                          (Values_index params k))
                 (getSortedKeys params))"

text \<open>The message that is signed: the method, the encoded URI up to its first \<^verbatim>\<open>?\<close> with the
  white space around it trimmed, and the encoded parameter string, joined by \<^verbatim>\<open>&\<close>.\<close>

definition signature_message :: "bool \<Rightarrow> string \<Rightarrow> string \<Rightarrow> Values \<Rightarrow> string" where
  "signature_message m method uri params =
     (let params_str = Join (params_arr m params) ''&''
      in Join [method,
               oauthEncode m (TrimSpace (SplitN2 uri CHR ''?'' ! 0)),
               oauthEncode m params_str] ''&'')"

text \<open>The key: the consumer secret and the secret of the credentials (empty for \<^verbatim>\<open>nil\<close>
  credentials), joined by \<^verbatim>\<open>&\<close>.\<close>

definition signature_key :: "OAuth1Client \<Rightarrow> AuthToken \<Rightarrow> string" where
  "signature_key p credentials =
     (let secret = (case credentials of
                      None \<Rightarrow> []
                    | Some c \<Rightarrow> if length (secret c) > 0 then secret c else [])
      in Join [ConsumerSecret p, secret] ''&'')"

text \<open>\<^verbatim>\<open>oauth1PrepareRequest\<close>: the signed parameters and the state (the nonce counter moves
  when the nonce is drawn here).\<close>

definition oauth1PrepareRequest ::
  "env \<Rightarrow> OAuth1Client \<Rightarrow> AuthToken \<Rightarrow> string \<Rightarrow> string \<Rightarrow> Values \<Rightarrow> Time \<Rightarrow> string \<Rightarrow> world
     \<Rightarrow> Values \<times> world" where
  "oauth1PrepareRequest e p credentials method uri additional_params timestamp nonce w =
     (let method = (if length method \<le> 0 then GET else method);
          timestamp = (if IsZero timestamp then now e else timestamp);
          (nonce, w) = (if length nonce \<le> 0 then newNonce e w else (nonce, w));
          params = oauth1PrepareRequest_params e p credentials uri additional_params
                     timestamp nonce;
          message = signature_message (old_marks e) method uri params;
          key = signature_key p credentials;
          sum = hmac_sha1 e key message;
          signature = TrimSpace (base64_Encode sum)
      in (Values_Set params ''oauth_signature'' signature, w))"

subsection \<open>Building and sending a request\<close>

definition dq :: string where
  "dq = [CHR 0x22]"

text \<open>The \<^verbatim>\<open>Authorization\<close> header of a protected request, from the signed parameters.\<close>

definition authorization_header :: "bool \<Rightarrow> Values \<Rightarrow> string" where
  "authorization_header m v =
     (let realm = Values_Get v ''realm'';
          oauth_realm = (if length realm > 0
                         then ''realm='' @ dq @ QueryEscape m realm @ dq @ '',''
                         else [])
      in ''OAuth '' @ oauth_realm @
         ''oauth_nonce='' @ dq @ QueryEscape m (Values_Get v ''oauth_nonce'') @ dq @
         '',oauth_timestamp='' @ dq @ QueryEscape m (Values_Get v ''oauth_timestamp'') @ dq @
         '',oauth_version='' @ dq @ QueryEscape m (Values_Get v ''oauth_version'') @ dq @
         '',oauth_signature_method='' @ dq @
            QueryEscape m (Values_Get v ''oauth_signature_method'') @ dq @
         '',oauth_consumer_key='' @ dq @ QueryEscape m (Values_Get v ''oauth_consumer_key'') @ dq @
         '',oauth_token='' @ dq @ QueryEscape m (Values_Get v ''oauth_token'') @ dq @
         '',oauth_signature='' @ dq @ QueryEscape m (Values_Get v ''oauth_signature'') @ dq)"

text \<open>
  \<^verbatim>\<open>oauth1GenerateRequest\<close>. \<^verbatim>\<open>http.NewRequest\<close> returns either a request or an error, so the
  pair \<^verbatim>\<open>(req, err)\<close> is a sum; an empty method is \<^verbatim>\<open>GET\<close> to \<^verbatim>\<open>NewRequest\<close>.
\<close>

definition oauth1GenerateRequest ::
  "env \<Rightarrow> OAuth1Client \<Rightarrow> AuthToken \<Rightarrow> Values \<Rightarrow> string \<Rightarrow> string \<Rightarrow> Values \<Rightarrow> bool \<Rightarrow> world
     \<Rightarrow> (error + Request) \<times> world" where
  "oauth1GenerateRequest e p credentials headers method uri additional_params protected w =
     (let (finalUri, params) = splitUrl e uri additional_params;
          (v, w) = oauth1PrepareRequest e p credentials method uri params Time_zero [] w;
          headers = (if protected
                     then Values_Set headers ''Authorization'' (authorization_header (old_marks e) v)
                     else headers);
          v = (if protected
               then fold (\<lambda>k v. Values_Del v k)
                      [''realm'', ''oauth_nonce'', ''oauth_timestamp'', ''oauth_version'',
                       ''oauth_signature_method'', ''oauth_consumer_key'', ''oauth_token'',
                       ''oauth_signature''] v
               else v);
          finalUri = (if method = GET
                      then (if protected then MakeUrl e uri additional_params
                            else MakeUrl e finalUri v)
                      else uri);
          r = (if method = GET then None else Some (Values_Encode (old_marks e) v))
      in case NewRequest_error e method finalUri of
           Some err \<Rightarrow> (Inl err, w)
         | None \<Rightarrow>
             (Inr \<lparr>Method = (if method = [] then ''GET'' else method), URL = finalUri,
                    Header = headers, Body = r\<rparr>, w))"

text \<open>\<^verbatim>\<open>OAuth1MakeSyncRequest\<close>: the response and the error; a request that could be built is
  handed to the transport and recorded in \<^const>\<open>sent\<close>.\<close>

definition OAuth1MakeSyncRequest ::
  "env \<Rightarrow> OAuth1Client \<Rightarrow> AuthToken \<Rightarrow> Values \<Rightarrow> string \<Rightarrow> string \<Rightarrow> Values \<Rightarrow> bool \<Rightarrow> world
     \<Rightarrow> Response option \<times> error option \<times> world" where
  "OAuth1MakeSyncRequest e p credentials headers method uri additional_params protected w =
     (case oauth1GenerateRequest e p credentials headers method uri additional_params protected w of
        (Inl err, w) \<Rightarrow> (None, Some err, w)
      | (Inr req, w) \<Rightarrow>
          (case MakeRequest e p req of
             (resp, err) \<Rightarrow> (resp, err, w\<lparr>sent := sent w @ [req]\<rparr>)))"

subsection \<open>The credential exchange\<close>

definition defaultOAuth1ParseAuthToken :: "string \<Rightarrow> AuthToken \<times> error option" where
  "defaultOAuth1ParseAuthToken val =
     (case ParseQuery val of
        (m, err) \<Rightarrow>
          ((case m of
              Some m \<Rightarrow> Some \<lparr>token = Values_Get m ''oauth_token'',
                               secret = Values_Get m ''oauth_token_secret''\<rparr>
            | None \<Rightarrow> Some \<lparr>token = [], secret = []\<rparr>), err))"

text \<open>The test \<^verbatim>\<open>c != nil && len(c.Token()) > 0 && len(c.Secret()) > 0\<close>.\<close>

definition token_and_secret :: "AuthToken \<Rightarrow> bool" where
  "token_and_secret c =
     (case c of None \<Rightarrow> False | Some t \<Rightarrow> length (token t) > 0 \<and> length (secret t) > 0)"

text \<open>The assignment \<^verbatim>\<open>oauth1TokenSecretMap[c.Token()] = &oauth1SecretInfo{...}\<close>.\<close>

definition remember :: "OAuth1Client \<Rightarrow> stdAuthToken \<Rightarrow> world \<Rightarrow> world" where
  "remember p c w =
     w\<lparr>oauth1TokenSecretMap := (oauth1TokenSecretMap w)
          (token c \<mapsto> \<lparr>si_service = ServiceId p, si_token = token c, si_secret = secret c\<rparr>)\<rparr>"

text \<open>
  \<^verbatim>\<open>getAuthToken\<close>. The result is \<^const>\<open>None\<close> where the program panics: on a \<^verbatim>\<open>nil\<close>
  response without an error, and on a response without a body. The error of reading the body
  is overwritten by the parser's.
\<close>

definition getAuthToken ::
  "env \<Rightarrow> OAuth1Client \<Rightarrow> world \<Rightarrow> (AuthToken \<times> error option \<times> world) option" where
  "getAuthToken e p w =
     (case OAuth1MakeSyncRequest e p None [] (RequestUrlMethod p) (RequestUrl p) []
             (RequestUrlProtected p) w of
        (resp, Some err, w) \<Rightarrow> Some (None, Some err, w)
      | (None, None, w) \<Rightarrow> None
      | (Some (Response None), None, w) \<Rightarrow> None
      | (Some (Response (Some (body, read_err))), None, w) \<Rightarrow>
          (case ParseRequestTokenResult p body of
             (credentials, err) \<Rightarrow>
               if token_and_secret credentials
               then Some (credentials, err, remember p (the credentials) w)
               else if err = None \<and> length body > 0
               then Some (credentials, Some (ErrorString body), w)
               else Some (credentials, err, w)))"

text \<open>
  \<^verbatim>\<open>oauth1RequestToken\<close>, in four parts. First the credentials that sign the exchange: the
  token unescaped (an error of \<^verbatim>\<open>url.QueryUnescape\<close> is dropped, its result is then empty), the
  secret that \<^verbatim>\<open>oauth1TokenSecretMap\<close> holds for the unescaped token or else the secret passed in.
\<close>

definition oauth1RequestToken_cred :: "world \<Rightarrow> stdAuthToken \<Rightarrow> stdAuthToken" where
  "oauth1RequestToken_cred w credentials =
     (let auth_token = fst (QueryUnescape (token credentials));
          auth_secret = (case oauth1TokenSecretMap w auth_token of
                           None \<Rightarrow> []
                         | Some info \<Rightarrow> si_secret info);
          auth_secret = (if length auth_secret \<le> 0 \<and> length (secret credentials) > 0
                         then secret credentials else auth_secret)
      in \<lparr>token = auth_token, secret = auth_secret\<rparr>)"

text \<open>The additional parameters: the unescaped verifier, when it is not empty.\<close>

definition oauth1RequestToken_params :: "string \<Rightarrow> Values" where
  "oauth1RequestToken_params verifier =
     (let auth_verifier = fst (QueryUnescape verifier)
      in if length auth_verifier > 0 then Values_Set [] ''oauth_verifier'' auth_verifier
         else [])"

text \<open>The body and the error of reading it; both empty without a response or a body.\<close>

definition read_body :: "Response option \<Rightarrow> string \<times> error option" where
  "read_body resp =
     (case resp of
        Some (Response (Some (body_bytes, err2))) \<Rightarrow> (body_bytes, err2)
      | _ \<Rightarrow> ([], None))"

text \<open>
  The function itself. The parameter \<^verbatim>\<open>client\<close> is never read and is left out; the
  credentials are never \<^verbatim>\<open>nil\<close> at a call. The result is the new credentials, the body, the
  error and the state.
\<close>

definition oauth1RequestToken ::
  "env \<Rightarrow> OAuth1Client \<Rightarrow> stdAuthToken \<Rightarrow> string \<Rightarrow> world
     \<Rightarrow> AuthToken \<times> string \<times> error option \<times> world" where
  "oauth1RequestToken e p credentials verifier w =
     (case OAuth1MakeSyncRequest e p (Some (oauth1RequestToken_cred w credentials)) []
             (AccessUrlMethod p) (AccessUrl p) (oauth1RequestToken_params verifier)
             (AccessUrlProtected p) w of
        (resp, err, w) \<Rightarrow>
          (case read_body resp of
             (body, err2) \<Rightarrow>
               (case ParseAccessTokenResult p body of
                  (c, err3) \<Rightarrow>
                    (let w = (if token_and_secret c then remember p (the c) w else w);
                         err2 = (if \<not> token_and_secret c \<and> err2 = None \<and> length body > 0
                                 then Some (ErrorString body) else err2);
                         err = (if err = None then (if err2 = None then err3 else err2)
                                else err)
                     in (c, body, err, w)))))"

text \<open>\<^verbatim>\<open>oauth1RequestTokenGranted\<close>: the answer, the client and the state afterwards.\<close>

definition oauth1RequestTokenGranted ::
  "env \<Rightarrow> OAuth1Client \<Rightarrow> Callback option \<Rightarrow> world \<Rightarrow> bool \<times> OAuth1Client \<times> world" where
  "oauth1RequestTokenGranted e p req w =
     (case req of
        None \<Rightarrow> (False, p, w)
      | Some r \<Rightarrow>
          (let q = URL_Query (RawQuery r);
               tok = Values_Get q ''oauth_token'';
               verifier = Values_Get q ''oauth_verifier''
           in if length tok \<le> 0 then (False, p, w)
              else
                (let tempCredentials = \<lparr>token = tok, secret = []\<rparr>
                 in case oauth1RequestToken e p tempCredentials verifier w of
                      (newCredentials, body, err, w) \<Rightarrow>
                        if err \<noteq> None \<or> newCredentials = None then (False, p, w)
                        else (True, SetCurrentCredentials p newCredentials, w))))"

text \<open>\<^verbatim>\<open>oauth1ExchangeRequestTokenForAccess\<close>: the error, the client and the state afterwards.\<close>

definition oauth1ExchangeRequestTokenForAccess ::
  "env \<Rightarrow> OAuth1Client \<Rightarrow> Callback option \<Rightarrow> world \<Rightarrow> error option \<times> OAuth1Client \<times> world" where
  "oauth1ExchangeRequestTokenForAccess e p req w =
     (case req of
        None \<Rightarrow> (Some (ErrorString ''Request cannot be nil''), p, w)
      | Some r \<Rightarrow>
          (let q = URL_Query (RawQuery r);
               tok = Values_Get q ''oauth_token'';
               verifier = Values_Get q ''oauth_verifier''
           in if length tok \<le> 0 then (Some (ErrorString ''Expected oauth_token''), p, w)
              else
                (let secret_val = (case oauth1TokenSecretMap w tok of
                                     None \<Rightarrow> []
                                   | Some info \<Rightarrow> si_secret info);
                     tempCredentials = \<lparr>token = tok, secret = secret_val\<rparr>
                 in case oauth1RequestToken e p tempCredentials verifier w of
                      (newCredentials, body, err, w) \<Rightarrow>
                        if err \<noteq> None then (err, p, w)
                        else if token_and_secret newCredentials
                        then (None, SetCurrentCredentials p newCredentials, w)
                        else if length body > 0 then (Some (ErrorString body), p, w)
                        else (None, p, w))))"

subsection \<open>Notions of the specification, and example inputs\<close>

text \<open>The first error that is not \<^verbatim>\<open>nil\<close> in a list of errors, \<^const>\<open>None\<close> when all are.\<close>

definition first_non_nil :: "error option list \<Rightarrow> error option" where
  "first_non_nil errs = (case filter (\<lambda>x. x \<noteq> None) errs of [] \<Rightarrow> None | x # _ \<Rightarrow> x)"

text \<open>
  The parameter string as the specification words it: every value of every parameter is a pair
  of its own; the pairs are sorted by name, in the byte-wise order, pairs of one name staying
  in their order; name and value are encoded and joined by \<^verbatim>\<open>=\<close>, the pairs by \<^verbatim>\<open>&\<close>.
\<close>

definition spec_pairs :: "Values \<Rightarrow> (string \<times> string) list" where
  "spec_pairs params = concat (map (\<lambda>(k, vs). map (Pair k) vs) params)"

definition spec_parameter_string :: "bool \<Rightarrow> Values \<Rightarrow> string" where
  "spec_parameter_string m params =
     Join (map (\<lambda>(k, v). oauthEncode m k @ ''='' @ oauthEncode m v)
               (sort_key fst (spec_pairs params))) ''&''"

text \<open>The uppercase form of an ASCII string (\<^verbatim>\<open>strings.ToUpper\<close> on ASCII input).\<close>

definition ToUpper :: "string \<Rightarrow> string" where
  "ToUpper s =
     map (\<lambda>c. if CHR ''a'' \<le> c \<and> c \<le> CHR ''z'' then char_of (of_char c - (32::nat)) else c) s"

text \<open>
  An environment whose transport answers every request with the given body, a client with the
  default parsers, and the state of a process that has done nothing yet. The stand-in for
  HMAC-SHA1 keeps key and message apart and readable.
\<close>

definition ex_env :: "string \<Rightarrow> env" where
  "ex_env body =
     \<lparr>old_marks = False, now = \<lparr>sec = 62135596800 + 1234567890, nsec = 0\<rparr>, rand64 = 0x2a,
      hmac_sha1 = (\<lambda>key msg. key @ ''#'' @ msg),
      url_Parse_RawQuery = (\<lambda>uri. Some (Cut_after uri CHR ''?'')),
      NewRequest_error = (\<lambda>m u. None),
      splitUrl = (\<lambda>uri v. (Cut_before uri CHR ''?'', v)),
      MakeUrl = (\<lambda>uri v. uri @ ''?'' @ Values_Encode False v),
      MakeRequest = (\<lambda>p r. (Some (Response (Some (body, None))), None))\<rparr>"

definition ex_client :: OAuth1Client where
  "ex_client =
     \<lparr>currentCredentials = None, ServiceId = ''svc'', Realm = [],
      ConsumerKey = ''ck'', ConsumerSecret = ''cs'',
      RequestUrl = ''http://example.com/request'', RequestUrlMethod = ''GET'',
      RequestUrlProtected = False,
      AccessUrl = ''http://example.com/access'', AccessUrlMethod = ''POST'',
      AccessUrlProtected = True,
      AuthorizationUrl = ''http://example.com/authorize'', AuthorizedResourceProtected = True,
      CallbackUrl = ''http://client/cb'',
      ParseRequestTokenResult = defaultOAuth1ParseAuthToken,
      ParseAccessTokenResult = defaultOAuth1ParseAuthToken\<rparr>"

definition ex_world :: world where
  "ex_world = \<lparr>nonceCounter = 0, oauth1TokenSecretMap = Map.empty, sent = []\<rparr>"

subsection \<open>Auxiliary notions\<close>

text \<open>The second pass of \<^const>\<open>oauthEncode\<close>, and the encoding of one byte that results.\<close>

definition remark :: "string \<Rightarrow> string" where
  "remark s = concat (map (\<lambda>c. if oauth_mark c then percent c else [c]) s)"

definition enc1 :: "char \<Rightarrow> string" where
  "enc1 c = (if unreserved c then [c] else if c = CHR '' '' then ''+'' else percent c)"

text \<open>
  The pairs of the loops of \<^const>\<open>params_arr\<close>, for any assignment of values to names: ranging
  over the sorted names is sorting the pairs by name, stably.
\<close>

definition pairs_of :: "(string \<Rightarrow> string list) \<Rightarrow> string list \<Rightarrow> (string \<times> string) list" where
  "pairs_of g ks = concat (map (\<lambda>k. map (Pair k) (g k)) ks)"

subsection \<open>Facts about the encoder\<close>

lemma oauth_mark_not_unreserved: "oauth_mark c \<Longrightarrow> \<not> unreserved c"
  by (auto simp: oauth_mark_def unreserved_def alphanum_def)

lemma upperhex_in: "n < 16 \<Longrightarrow> upperhex n \<in> set ''0123456789ABCDEF''"
  unfolding upperhex_def by (rule nth_mem) simp

lemma upperhex_not_mark: "n < 16 \<Longrightarrow> \<not> oauth_mark (upperhex n)"
  using upperhex_in[of n] by (auto simp: oauth_mark_def)

lemma of_char_div16: "(of_char c :: nat) div 16 < 16"
proof -
  have "(of_char c :: nat) < 256" by simp
  then show ?thesis by arith
qed

lemma percent_no_mark: "filter oauth_mark (percent c) = []"
  by (simp add: percent_def upperhex_not_mark of_char_div16) (simp add: oauth_mark_def)

lemma remark_id: "filter oauth_mark s = [] \<Longrightarrow> remark s = s"
  by (induction s) (auto simp: remark_def split: if_splits)

lemma remark_append: "remark (xs @ ys) = remark xs @ remark ys"
  by (simp add: remark_def)

lemma oauthEncode_remark: "oauthEncode m s = remark (QueryEscape m s)"
  by (auto simp: oauthEncode_def Let_def remark_def[symmetric] remark_id)

lemma remark_escaped:
  "remark (if shouldEscape m c then (if c = CHR '' '' then ''+'' else percent c) else [c])
     = enc1 c"
proof (cases "oauth_mark c")
  case True
  then have "\<not> unreserved c" "c \<noteq> CHR '' ''"
    by (auto simp: oauth_mark_not_unreserved oauth_mark_def)
  moreover have "remark (percent c) = percent c"
    by (simp add: remark_id percent_no_mark)
  moreover have "remark [c] = percent c"
    using True by (simp add: remark_def)
  ultimately show ?thesis by (simp add: enc1_def)
next
  case False
  then have esc: "shouldEscape m c \<longleftrightarrow> \<not> unreserved c"
    by (auto simp: shouldEscape_def unreserved_def)
  have "remark (percent c) = percent c"
    by (simp add: remark_id percent_no_mark)
  moreover have "remark [c] = [c]"
    using False by (simp add: remark_def)
  moreover have "remark ''+'' = ''+''"
    by (simp add: remark_def oauth_mark_def)
  ultimately show ?thesis using esc by (simp add: enc1_def)
qed

text \<open>
  Whatever the library's generation, \<^const>\<open>oauthEncode\<close> encodes byte by byte: an unreserved
  byte stands for itself, a space becomes \<^verbatim>\<open>+\<close>, every other byte (the five marks among them)
  its uppercase percent escape.
\<close>

lemma oauthEncode_bytes: "oauthEncode m s = concat (map enc1 s)"
proof -
  have "remark (QueryEscape m s) = concat (map enc1 s)"
  proof (induction s)
    case Nil
    show ?case by (simp add: QueryEscape_def remark_def)
  next
    case (Cons c cs)
    have "QueryEscape m (c # cs) =
        (if shouldEscape m c then (if c = CHR '' '' then ''+'' else percent c) else [c])
          @ QueryEscape m cs"
      by (simp add: QueryEscape_def)
    then show ?case using Cons.IH remark_escaped[of m c]
      by (simp only: remark_append list.map concat.simps)
  qed
  then show ?thesis by (simp add: oauthEncode_remark)
qed

lemma oauthEncode_append: "oauthEncode m (xs @ ys) = oauthEncode m xs @ oauthEncode m ys"
  by (simp add: oauthEncode_bytes)

text \<open>Away from the space, the encoder is the one of the specification.\<close>

lemma oauthEncode_without_space:
  "CHR '' '' \<notin> set s \<Longrightarrow> oauthEncode m s = spec_oauthEncode s"
  unfolding oauthEncode_bytes spec_oauthEncode_def
  by (induction s) (auto simp: enc1_def)

text \<open>
  Claim C3: for every input string, \<^verbatim>\<open>oauthEncode\<close> percent-encodes exactly the bytes outside
  the unreserved set, the five marks \<^verbatim>\<open>! * ' ( )\<close> among them, with uppercase hexadecimal digits.
  The program does so for every byte but the space (\<open>oauthEncode_without_space\<close>): the space
  leaves \<^verbatim>\<open>url.QueryEscape\<close> as \<^verbatim>\<open>+\<close>, and the second pass, which repairs the marks "that are
  not escaped in \<^verbatim>\<open>url.QueryEscape()\<close> but need to be for OAuth encoding", does not repair it.
  At the input \<^verbatim>\<open>a b\<close> the program returns \<^verbatim>\<open>a+b\<close>, the encoder of the claim \<^verbatim>\<open>a%20b\<close>.
\<close>

theorem oauthEncode_space_is_plus:
  "oauthEncode m ''a b'' = ''a+b'' \<and> spec_oauthEncode ''a b'' = ''a%20b''"
  by (simp add: oauthEncode_bytes enc1_def spec_oauthEncode_def unreserved_def alphanum_def
      percent_def upperhex_def)

subsection \<open>Facts about the default parser\<close>

lemma parseQuery_empty: "parseQuery m err [] = (m, err)"
  by (simp add: parseQuery.simps)

lemma ParseQuery_not_nil: "\<exists>m err. ParseQuery query = (Some m, err)"
  by (simp add: ParseQuery_def split: prod.splits)

text \<open>
  Claim C10: \<^verbatim>\<open>defaultOAuth1ParseAuthToken\<close> returns credentials that are not \<^verbatim>\<open>nil\<close> for every
  string, and for the empty string credentials with an empty token and an empty secret
  together with no error.
\<close>

theorem defaultOAuth1ParseAuthToken_total:
  "(\<exists>c err. defaultOAuth1ParseAuthToken val = (Some c, err)) \<and>
   defaultOAuth1ParseAuthToken [] = (Some \<lparr>token = [], secret = []\<rparr>, None)"
proof
  obtain m err where "ParseQuery val = (Some m, err)"
    using ParseQuery_not_nil by blast
  then show "\<exists>c err. defaultOAuth1ParseAuthToken val = (Some c, err)"
    by (simp add: defaultOAuth1ParseAuthToken_def)
next
  have "ParseQuery [] = (Some [], None)"
    by (simp add: ParseQuery_def parseQuery_empty)
  then show "defaultOAuth1ParseAuthToken [] = (Some \<lparr>token = [], secret = []\<rparr>, None)"
    by (simp add: defaultOAuth1ParseAuthToken_def Values_Get_def Values_index_def)
qed

theorem defaultOAuth1ParseAuthToken_total_witness:
  "(\<exists>c err. defaultOAuth1ParseAuthToken ''oauth_token=t%zz'' = (Some c, err)) \<and>
   defaultOAuth1ParseAuthToken ''oauth_token=t%zz'' =
     (Some \<lparr>token = [], secret = []\<rparr>, Some (EscapeError ''%zz''))"
proof -
  have "defaultOAuth1ParseAuthToken ''oauth_token=t%zz'' =
     (Some \<lparr>token = [], secret = []\<rparr>, Some (EscapeError ''%zz''))"
    by (simp add: defaultOAuth1ParseAuthToken_def ParseQuery_def parseQuery.simps
        Cut_before_def Cut_after_def QueryUnescape_def ishex_def Values_Get_def Values_index_def)
  with defaultOAuth1ParseAuthToken_total [of "''oauth_token=t%zz''"] show ?thesis by simp
qed

subsection \<open>Facts about sending a request\<close>

text \<open>Signing and sending touch neither the table of secrets nor, until the request is handed
  to the transport, the record of what was sent.\<close>

lemma newNonce_frame:
  "oauth1TokenSecretMap (snd (newNonce e w)) = oauth1TokenSecretMap w"
  "sent (snd (newNonce e w)) = sent w"
  by (simp_all add: newNonce_def Let_def)

lemma oauth1PrepareRequest_frame:
  "oauth1TokenSecretMap (snd (oauth1PrepareRequest e p c m u ap ts n w)) = oauth1TokenSecretMap w"
  "sent (snd (oauth1PrepareRequest e p c m u ap ts n w)) = sent w"
  using newNonce_frame[of e w]
  by (auto simp add: oauth1PrepareRequest_def Let_def split: prod.splits if_splits)

lemma oauth1GenerateRequest_frame:
  "oauth1TokenSecretMap (snd (oauth1GenerateRequest e p c h m u ap pr w)) = oauth1TokenSecretMap w"
  "sent (snd (oauth1GenerateRequest e p c h m u ap pr w)) = sent w"
  using oauth1PrepareRequest_frame[of e p c m u "snd (splitUrl e u ap)" Time_zero "[]" w]
  by (auto simp add: oauth1GenerateRequest_def Let_def split: prod.splits option.splits)

lemma OAuth1MakeSyncRequest_shape:
  obtains (refused) err w1 where
      "OAuth1MakeSyncRequest e p c h m u ap pr w = (None, Some err, w1)"
      "sent w1 = sent w" "oauth1TokenSecretMap w1 = oauth1TokenSecretMap w"
  | (handed) req w1 where
      "OAuth1MakeSyncRequest e p c h m u ap pr w
         = (fst (MakeRequest e p req), snd (MakeRequest e p req), w1)"
      "sent w1 = sent w @ [req]" "oauth1TokenSecretMap w1 = oauth1TokenSecretMap w"
proof (cases "oauth1GenerateRequest e p c h m u ap pr w")
  case (Pair r w0)
  have fr: "oauth1TokenSecretMap w0 = oauth1TokenSecretMap w" "sent w0 = sent w"
    using oauth1GenerateRequest_frame[of e p c h m u ap pr w] Pair by simp_all
  show ?thesis
  proof (cases r)
    case (Inl err)
    with Pair fr show ?thesis
      by (intro refused[of err w0]) (simp_all add: OAuth1MakeSyncRequest_def)
  next
    case (Inr req)
    with Pair fr show ?thesis
      by (intro handed[of req "w0\<lparr>sent := sent w0 @ [req]\<rparr>"])
         (simp_all add: OAuth1MakeSyncRequest_def split: prod.splits)
  qed
qed

lemma oauth1GenerateRequest_accepted:
  assumes "\<And>m u. NewRequest_error e m u = None"
  shows "\<exists>req. fst (oauth1GenerateRequest e p c h m u ap pr w) = Inr req"
  using assms by (simp add: oauth1GenerateRequest_def Let_def split: prod.splits)

lemma OAuth1MakeSyncRequest_accepted:
  assumes "\<And>m u. NewRequest_error e m u = None"
  obtains req w1 where
      "OAuth1MakeSyncRequest e p c h m u ap pr w
         = (fst (MakeRequest e p req), snd (MakeRequest e p req), w1)"
      "sent w1 = sent w @ [req]" "oauth1TokenSecretMap w1 = oauth1TokenSecretMap w"
proof (cases "oauth1GenerateRequest e p c h m u ap pr w")
  case (Pair r w0)
  have fr: "oauth1TokenSecretMap w0 = oauth1TokenSecretMap w" "sent w0 = sent w"
    using oauth1GenerateRequest_frame[of e p c h m u ap pr w] Pair by simp_all
  obtain req where "r = Inr req"
    using oauth1GenerateRequest_accepted[OF assms, of p c h m u ap pr w] Pair by auto
  with Pair fr show ?thesis
      by (intro that[of req "w0\<lparr>sent := sent w0 @ [req]\<rparr>"])
         (simp_all add: OAuth1MakeSyncRequest_def split: prod.splits)
qed

subsection \<open>Facts about the credential exchange\<close>

lemma ex_env_simps:
  "NewRequest_error (ex_env b) m u = None"
  "MakeRequest (ex_env b) p r = (Some (Response (Some (b, None))), None)"
  by (simp_all add: ex_env_def)

lemma parse_AB:
  "defaultOAuth1ParseAuthToken ''oauth_token=A&oauth_token_secret=B''
     = (Some \<lparr>token = ''A'', secret = ''B''\<rparr>, None)"
  by (simp add: defaultOAuth1ParseAuthToken_def ParseQuery_def parseQuery.simps
        Cut_before_def Cut_after_def QueryUnescape_def Values_Get_def Values_index_def
        Values_Add_def)

lemma query_T: "URL_Query ''oauth_token=T'' = [(''oauth_token'', [''T''])]"
  by (simp add: URL_Query_def ParseQuery_def parseQuery.simps
        Cut_before_def Cut_after_def QueryUnescape_def Values_index_def Values_Add_def)

lemma Values_Get_only_empty:
  "set (Values_index q k) \<subseteq> {[]} \<Longrightarrow> Values_Get q k = []"
  by (cases "Values_index q k") (auto simp: Values_Get_def)

lemma query_v: "URL_Query ''oauth_verifier=v'' = [(''oauth_verifier'', [''v''])]"
  by (simp add: URL_Query_def ParseQuery_def parseQuery.simps
        Cut_before_def Cut_after_def QueryUnescape_def Values_index_def Values_Add_def)

lemma parse_denied:
  "defaultOAuth1ParseAuthToken ''denied'' = (Some \<lparr>token = [], secret = []\<rparr>, None)"
  by (simp add: defaultOAuth1ParseAuthToken_def ParseQuery_def parseQuery.simps
        Cut_before_def Cut_after_def QueryUnescape_def Values_Get_def Values_index_def
        Values_Add_def)

text \<open>What \<^const>\<open>oauth1RequestToken\<close> returns when every request is accepted by
  \<^verbatim>\<open>http.NewRequest\<close> and the transport gives the same answer to each.\<close>

lemma oauth1RequestToken_answered:
  assumes acc: "\<And>m u. NewRequest_error e m u = None"
    and ans: "\<And>rq. MakeRequest e p rq = (resp, terr)"
    and rd: "read_body resp = (body, rerr)"
    and ps: "ParseAccessTokenResult p body = (c, perr)"
  obtains req w' where
    "oauth1RequestToken e p credentials verifier w
       = (c, body,
          first_non_nil [terr,
            if \<not> token_and_secret c \<and> rerr = None \<and> body \<noteq> [] then Some (ErrorString body)
            else rerr, perr], w')"
    "sent w' = sent w @ [req]"
    "oauth1TokenSecretMap w' =
       (if token_and_secret c then oauth1TokenSecretMap (remember p (the c) w)
        else oauth1TokenSecretMap w)"
proof -
  obtain req w1 where
    s: "OAuth1MakeSyncRequest e p (Some (oauth1RequestToken_cred w credentials)) []
             (AccessUrlMethod p) (AccessUrl p) (oauth1RequestToken_params verifier)
             (AccessUrlProtected p) w
         = (fst (MakeRequest e p req), snd (MakeRequest e p req), w1)"
    and fr: "sent w1 = sent w @ [req]" "oauth1TokenSecretMap w1 = oauth1TokenSecretMap w"
    using OAuth1MakeSyncRequest_accepted[OF acc] by metis
  let ?w' = "if token_and_secret c then remember p (the c) w1 else w1"
  have "oauth1RequestToken e p credentials verifier w
       = (c, body,
          first_non_nil [terr,
            if \<not> token_and_secret c \<and> rerr = None \<and> body \<noteq> [] then Some (ErrorString body)
            else rerr, perr], ?w')"
    using s ans rd ps by (auto simp: oauth1RequestToken_def first_non_nil_def Let_def)
  moreover have "sent ?w' = sent w @ [req]"
    using fr by (simp add: remember_def)
  moreover have "oauth1TokenSecretMap ?w' =
       (if token_and_secret c then oauth1TokenSecretMap (remember p (the c) w)
        else oauth1TokenSecretMap w)"
    using fr by (simp add: remember_def)
  ultimately show ?thesis using that by blast
qed


text \<open>
  Claim C6: for a callback request whose query has no non-empty \<^verbatim>\<open>oauth_token\<close>,
  \<^verbatim>\<open>oauth1RequestTokenGranted\<close> answers \<^verbatim>\<open>false\<close> and \<^verbatim>\<open>oauth1ExchangeRequestTokenForAccess\<close> returns
  an error; the client and the state (the requests handed to the transport among it) are the
  ones before the call, so no request was made.
\<close>

theorem callback_without_token:
  assumes "set (Values_index (URL_Query (RawQuery r)) ''oauth_token'') \<subseteq> {[]}"
  shows "oauth1RequestTokenGranted e p (Some r) w = (False, p, w) \<and>
         oauth1ExchangeRequestTokenForAccess e p (Some r) w
           = (Some (ErrorString ''Expected oauth_token''), p, w)"
  using Values_Get_only_empty[OF assms]
  by (simp add: oauth1RequestTokenGranted_def oauth1ExchangeRequestTokenForAccess_def)

theorem callback_without_token_witness:
  "oauth1RequestTokenGranted (ex_env []) ex_client (Some \<lparr>RawQuery = ''oauth_verifier=v''\<rparr>) ex_world
     = (False, ex_client, ex_world) \<and>
   oauth1ExchangeRequestTokenForAccess (ex_env []) ex_client
       (Some \<lparr>RawQuery = ''oauth_verifier=v''\<rparr>) ex_world
     = (Some (ErrorString ''Expected oauth_token''), ex_client, ex_world)"
proof -
  have "set (Values_index (URL_Query (RawQuery \<lparr>RawQuery = ''oauth_verifier=v''\<rparr>)) ''oauth_token'')
          \<subseteq> {[]}"
    by (simp add: query_v Values_index_def)
  from callback_without_token[OF this] show ?thesis .
qed

text \<open>
  Claim C7: the error \<^verbatim>\<open>oauth1RequestToken\<close> returns is the first that is not \<^verbatim>\<open>nil\<close> among the
  transport's error, the error of reading the body (in whose place, when there is none, a body
  that is not empty and gives no token and secret stands as the error's text), and the parser's
  error, in this order.
\<close>

theorem oauth1RequestToken_error_priority:
  assumes "OAuth1MakeSyncRequest e p (Some (oauth1RequestToken_cred w credentials)) []
             (AccessUrlMethod p) (AccessUrl p) (oauth1RequestToken_params verifier)
             (AccessUrlProtected p) w = (resp, transport_err, w1)"
    and "read_body resp = (body, read_err)"
    and "ParseAccessTokenResult p body = (c, parse_err)"
  shows "fst (snd (snd (oauth1RequestToken e p credentials verifier w)))
           = first_non_nil
               [transport_err,
                if \<not> token_and_secret c \<and> read_err = None \<and> body \<noteq> []
                then Some (ErrorString body) else read_err,
                parse_err]"
  using assms by (auto simp add: oauth1RequestToken_def first_non_nil_def Let_def)

theorem oauth1RequestToken_error_priority_witness:
  "fst (snd (snd (oauth1RequestToken (ex_env ''denied'') ex_client \<lparr>token = ''T'', secret = []\<rparr> []
      ex_world))) = Some (ErrorString ''denied'')"
proof -
  obtain req w1 where
    sync: "OAuth1MakeSyncRequest (ex_env ''denied'') ex_client
             (Some (oauth1RequestToken_cred ex_world \<lparr>token = ''T'', secret = []\<rparr>)) []
             (AccessUrlMethod ex_client) (AccessUrl ex_client) (oauth1RequestToken_params [])
             (AccessUrlProtected ex_client) ex_world
           = (Some (Response (Some (''denied'', None))), None, w1)"
    using OAuth1MakeSyncRequest_accepted[of "ex_env ''denied''" ex_client
        "Some (oauth1RequestToken_cred ex_world \<lparr>token = ''T'', secret = []\<rparr>)" "[]"
        "AccessUrlMethod ex_client" "AccessUrl ex_client" "oauth1RequestToken_params []"
        "AccessUrlProtected ex_client" ex_world]
    by (simp add: ex_env_simps) blast
  have rd: "read_body (Some (Response (Some (''denied'', None)))) = (''denied'', None)"
    by (simp add: read_body_def)
  have ps: "ParseAccessTokenResult ex_client ''denied''
              = (Some \<lparr>token = [], secret = []\<rparr>, None)"
    by (simp add: ex_client_def parse_denied)
  from oauth1RequestToken_error_priority[OF sync rd ps] show ?thesis
    by (simp add: first_non_nil_def token_and_secret_def)
qed

lemma parse_empty:
  "defaultOAuth1ParseAuthToken [] = (Some \<lparr>token = [], secret = []\<rparr>, None)"
  by (simp add: defaultOAuth1ParseAuthToken_def ParseQuery_def parseQuery_empty
      Values_Get_def Values_index_def)

lemma query_TV:
  "URL_Query ''oauth_token=T&oauth_verifier=V''
     = [(''oauth_token'', [''T'']), (''oauth_verifier'', [''V''])]"
  by (simp add: URL_Query_def ParseQuery_def parseQuery.simps
        Cut_before_def Cut_after_def QueryUnescape_def Values_index_def Values_Add_def)

text \<open>
  Claim C8: for a callback request with a non-empty \<^verbatim>\<open>oauth_token\<close> and no \<^verbatim>\<open>oauth_verifier\<close>,
  neither function fails for the missing verifier: the request for the access token is handed
  to the transport, and when the provider answers it with a token and a secret (and no stage
  reports an error) \<^verbatim>\<open>oauth1RequestTokenGranted\<close> answers \<^verbatim>\<open>true\<close>,
  \<^verbatim>\<open>oauth1ExchangeRequestTokenForAccess\<close> returns no error, and both install the credentials.
\<close>

theorem missing_verifier_tolerated:
  assumes tok: "Values_Get (URL_Query (RawQuery r)) ''oauth_token'' \<noteq> []"
    and ver: "Values_index (URL_Query (RawQuery r)) ''oauth_verifier'' = []"
    and acc: "\<And>m u. NewRequest_error e m u = None"
    and ans: "\<And>rq. MakeRequest e p rq = (Some (Response (Some (body, None))), None)"
    and ps: "ParseAccessTokenResult p body = (Some c, None)"
    and c: "token c \<noteq> []" "secret c \<noteq> []"
  shows "(\<exists>req w'. oauth1RequestTokenGranted e p (Some r) w
                     = (True, SetCurrentCredentials p (Some c), w') \<and>
                   sent w' = sent w @ [req]) \<and>
         (\<exists>req w'. oauth1ExchangeRequestTokenForAccess e p (Some r) w
                     = (None, SetCurrentCredentials p (Some c), w') \<and>
                   sent w' = sent w @ [req])"
proof -
  have rd: "read_body (Some (Response (Some (body, None)))) = (body, None)"
    by (simp add: read_body_def)
  have ts: "token_and_secret (Some c)"
    using c by (simp add: token_and_secret_def)
  have noverifier: "Values_Get (URL_Query (RawQuery r)) ''oauth_verifier'' = []"
    using ver by (simp add: Values_Get_def)
  have ex: "\<exists>req w'. oauth1RequestToken e p creds [] w = (Some c, body, None, w') \<and>
              sent w' = sent w @ [req]" for creds
    using oauth1RequestToken_answered[OF acc ans rd ps, of creds "[]" w] ts
    by (simp add: first_non_nil_def) blast
  show ?thesis
  proof
    from ex[of "\<lparr>token = Values_Get (URL_Query (RawQuery r)) ''oauth_token'', secret = []\<rparr>"]
    show "\<exists>req w'. oauth1RequestTokenGranted e p (Some r) w
                     = (True, SetCurrentCredentials p (Some c), w') \<and> sent w' = sent w @ [req]"
      using tok noverifier by (auto simp: oauth1RequestTokenGranted_def Let_def)
  next
    let ?s = "case oauth1TokenSecretMap w (Values_Get (URL_Query (RawQuery r)) ''oauth_token'') of
                None \<Rightarrow> [] | Some info \<Rightarrow> si_secret info"
    from ex[of "\<lparr>token = Values_Get (URL_Query (RawQuery r)) ''oauth_token'', secret = ?s\<rparr>"]
    show "\<exists>req w'. oauth1ExchangeRequestTokenForAccess e p (Some r) w
                     = (None, SetCurrentCredentials p (Some c), w') \<and> sent w' = sent w @ [req]"
      using tok noverifier ts by (auto simp: oauth1ExchangeRequestTokenForAccess_def Let_def)
  qed
qed

theorem missing_verifier_tolerated_witness:
  "(\<exists>req w'. oauth1RequestTokenGranted (ex_env ''oauth_token=A&oauth_token_secret=B'') ex_client
                 (Some \<lparr>RawQuery = ''oauth_token=T''\<rparr>) ex_world
               = (True, SetCurrentCredentials ex_client (Some \<lparr>token = ''A'', secret = ''B''\<rparr>), w') \<and>
             sent w' = sent ex_world @ [req]) \<and>
   (\<exists>req w'. oauth1ExchangeRequestTokenForAccess (ex_env ''oauth_token=A&oauth_token_secret=B'')
                 ex_client (Some \<lparr>RawQuery = ''oauth_token=T''\<rparr>) ex_world
               = (None, SetCurrentCredentials ex_client (Some \<lparr>token = ''A'', secret = ''B''\<rparr>), w') \<and>
             sent w' = sent ex_world @ [req])"
proof (rule missing_verifier_tolerated)
  show "Values_Get (URL_Query (RawQuery \<lparr>RawQuery = ''oauth_token=T''\<rparr>)) ''oauth_token'' \<noteq> []"
    by (simp add: query_T Values_Get_def Values_index_def)
  show "Values_index (URL_Query (RawQuery \<lparr>RawQuery = ''oauth_token=T''\<rparr>)) ''oauth_verifier'' = []"
    by (simp add: query_T Values_index_def)
  show "ParseAccessTokenResult ex_client ''oauth_token=A&oauth_token_secret=B''
          = (Some \<lparr>token = ''A'', secret = ''B''\<rparr>, None)"
    by (simp add: ex_client_def parse_AB)
qed (simp_all add: ex_env_simps)

text \<open>What the two functions leave in place: \<^verbatim>\<open>oauth1ExchangeRequestTokenForAccess\<close> changes
  the client only to install credentials with a token and a secret, and
  \<^verbatim>\<open>oauth1RequestTokenGranted\<close> changes nothing when it answers \<^verbatim>\<open>false\<close>.\<close>

lemma oauth1ExchangeRequestTokenForAccess_installs:
  assumes "oauth1ExchangeRequestTokenForAccess e p req w = (err, p', w')"
  shows "p' = p \<or> (err = None \<and> token_and_secret (currentCredentials p') \<and>
                   p' = p\<lparr>currentCredentials := currentCredentials p'\<rparr>)"
  using assms
  by (auto simp: oauth1ExchangeRequestTokenForAccess_def Let_def SetCurrentCredentials_def
      split: option.splits if_splits prod.splits)

lemma oauth1RequestTokenGranted_refused:
  assumes "oauth1RequestTokenGranted e p req w = (False, p', w')"
  shows "p' = p"
  using assms
  by (auto simp: oauth1RequestTokenGranted_def Let_def
      split: option.splits if_splits prod.splits)

text \<open>
  Claim C5: neither \<^verbatim>\<open>oauth1RequestTokenGranted\<close> nor \<^verbatim>\<open>oauth1ExchangeRequestTokenForAccess\<close>
  installs credentials with an empty token or an empty secret. The second function tests the
  new credentials for both (\<open>oauth1ExchangeRequestTokenForAccess_installs\<close>); the first tests
  them against \<^verbatim>\<open>nil\<close> only. When the provider answers the exchange with an empty body and no
  error, \<^verbatim>\<open>oauth1RequestToken\<close> returns what the parser makes of the empty body, with no error
  when the parser reports none, and \<^verbatim>\<open>oauth1RequestTokenGranted\<close> installs it and answers
  \<^verbatim>\<open>true\<close>. The default parser makes credentials with an empty token and an empty secret of it.
\<close>

theorem granted_installs_unchecked:
  assumes tok: "Values_Get (URL_Query (RawQuery r)) ''oauth_token'' \<noteq> []"
    and acc: "\<And>m u. NewRequest_error e m u = None"
    and ans: "\<And>rq. MakeRequest e p rq = (Some (Response (Some ([], None))), None)"
    and ps: "ParseAccessTokenResult p [] = (Some c, None)"
  shows "fst (oauth1RequestTokenGranted e p (Some r) w) = True \<and>
         currentCredentials (fst (snd (oauth1RequestTokenGranted e p (Some r) w))) = Some c"
proof -
  have rd: "read_body (Some (Response (Some ([], None)))) = ([], None)"
    by (simp add: read_body_def)
  obtain req w' where
    "oauth1RequestToken e p
        \<lparr>token = Values_Get (URL_Query (RawQuery r)) ''oauth_token'', secret = []\<rparr>
        (Values_Get (URL_Query (RawQuery r)) ''oauth_verifier'') w
       = (Some c, [], None, w')"
    using oauth1RequestToken_answered[OF acc ans rd ps,
        of "\<lparr>token = Values_Get (URL_Query (RawQuery r)) ''oauth_token'', secret = []\<rparr>"
           "Values_Get (URL_Query (RawQuery r)) ''oauth_verifier''" w]
    by (auto simp: first_non_nil_def)
  then show ?thesis
    using tok by (simp add: oauth1RequestTokenGranted_def Let_def SetCurrentCredentials_def)
qed

theorem granted_installs_empty_credentials:
  "fst (oauth1RequestTokenGranted (ex_env []) ex_client (Some \<lparr>RawQuery = ''oauth_token=T''\<rparr>)
          ex_world) = True \<and>
   currentCredentials (fst (snd (oauth1RequestTokenGranted (ex_env []) ex_client
          (Some \<lparr>RawQuery = ''oauth_token=T''\<rparr>) ex_world)))
     = Some \<lparr>token = [], secret = []\<rparr>"
proof (rule granted_installs_unchecked)
  show "Values_Get (URL_Query (RawQuery \<lparr>RawQuery = ''oauth_token=T''\<rparr>)) ''oauth_token'' \<noteq> []"
    by (simp add: query_T Values_Get_def Values_index_def)
  show "ParseAccessTokenResult ex_client [] = (Some \<lparr>token = [], secret = []\<rparr>, None)"
    by (simp add: ex_client_def parse_empty)
qed (simp_all add: ex_env_simps)

text \<open>The table after \<^const>\<open>oauth1RequestToken\<close>.\<close>

lemma oauth1RequestToken_table:
  assumes "oauth1RequestToken e p credentials verifier w = (c, body, err, w')"
  shows "oauth1TokenSecretMap w' =
           (if token_and_secret c then oauth1TokenSecretMap (remember p (the c) w)
            else oauth1TokenSecretMap w)"
proof (cases rule: OAuth1MakeSyncRequest_shape[of e p "Some (oauth1RequestToken_cred w credentials)" "[]"
             "AccessUrlMethod p" "AccessUrl p" "oauth1RequestToken_params verifier"
             "AccessUrlProtected p" w])
  case (refused err w1)
  with assms show ?thesis
    by (auto simp: oauth1RequestToken_def Let_def remember_def split: prod.splits if_splits)
next
  case (handed req w1)
  with assms show ?thesis
    by (auto simp: oauth1RequestToken_def Let_def remember_def split: prod.splits if_splits)
qed

lemma exchange_AB:
  "\<exists>req w'. oauth1RequestToken (ex_env ''oauth_token=A&oauth_token_secret=B'') ex_client creds v w
       = (Some \<lparr>token = ''A'', secret = ''B''\<rparr>, ''oauth_token=A&oauth_token_secret=B'', None, w')
     \<and> sent w' = sent w @ [req]
     \<and> oauth1TokenSecretMap w'
         = oauth1TokenSecretMap (remember ex_client \<lparr>token = ''A'', secret = ''B''\<rparr> w)"
proof -
  have rd: "read_body (Some (Response (Some (''oauth_token=A&oauth_token_secret=B'', None))))
              = (''oauth_token=A&oauth_token_secret=B'', None)"
    by (simp add: read_body_def)
  have ps: "ParseAccessTokenResult ex_client ''oauth_token=A&oauth_token_secret=B''
              = (Some \<lparr>token = ''A'', secret = ''B''\<rparr>, None)"
    by (simp add: ex_client_def parse_AB)
  show ?thesis
    using oauth1RequestToken_answered[OF ex_env_simps(1) ex_env_simps(2) rd ps, of creds v w]
    by (simp add: first_non_nil_def token_and_secret_def) blast
qed

text \<open>
  Claim C9 says that after an access-token exchange for the temporary token \<open>T\<close> the table no
  longer holds the entry of \<open>T\<close>. The program has no statement that removes an entry. In the
  example the table holds \<open>T\<close> with secret \<open>S\<close>, the exchange for \<open>T\<close> succeeds and installs the
  access credentials \<open>(A, B)\<close>, and the entry of \<open>T\<close> is still there.
\<close>

theorem exchange_does_not_evict:
  "fst (oauth1ExchangeRequestTokenForAccess (ex_env ''oauth_token=A&oauth_token_secret=B'')
          ex_client (Some \<lparr>RawQuery = ''oauth_token=T&oauth_verifier=V''\<rparr>)
          (remember ex_client \<lparr>token = ''T'', secret = ''S''\<rparr> ex_world)) = None \<and>
   currentCredentials (fst (snd (oauth1ExchangeRequestTokenForAccess
          (ex_env ''oauth_token=A&oauth_token_secret=B'')
          ex_client (Some \<lparr>RawQuery = ''oauth_token=T&oauth_verifier=V''\<rparr>)
          (remember ex_client \<lparr>token = ''T'', secret = ''S''\<rparr> ex_world))))
     = Some \<lparr>token = ''A'', secret = ''B''\<rparr> \<and>
   oauth1TokenSecretMap (snd (snd (oauth1ExchangeRequestTokenForAccess
          (ex_env ''oauth_token=A&oauth_token_secret=B'')
          ex_client (Some \<lparr>RawQuery = ''oauth_token=T&oauth_verifier=V''\<rparr>)
          (remember ex_client \<lparr>token = ''T'', secret = ''S''\<rparr> ex_world)))) ''T''
     = Some \<lparr>si_service = ''svc'', si_token = ''T'', si_secret = ''S''\<rparr>"
proof -
  let ?w = "remember ex_client \<lparr>token = ''T'', secret = ''S''\<rparr> ex_world"
  obtain req w' where
    r: "oauth1RequestToken (ex_env ''oauth_token=A&oauth_token_secret=B'') ex_client
           \<lparr>token = ''T'', secret = ''S''\<rparr> ''V'' ?w
         = (Some \<lparr>token = ''A'', secret = ''B''\<rparr>, ''oauth_token=A&oauth_token_secret=B'', None, w')"
    and t: "oauth1TokenSecretMap w'
         = oauth1TokenSecretMap (remember ex_client \<lparr>token = ''A'', secret = ''B''\<rparr> ?w)"
    using exchange_AB by blast
  have "oauth1ExchangeRequestTokenForAccess (ex_env ''oauth_token=A&oauth_token_secret=B'') ex_client
       (Some \<lparr>RawQuery = ''oauth_token=T&oauth_verifier=V''\<rparr>) ?w
       = (None, SetCurrentCredentials ex_client (Some \<lparr>token = ''A'', secret = ''B''\<rparr>), w')"
    using r
    by (simp add: oauth1ExchangeRequestTokenForAccess_def query_TV Values_Get_def Values_index_def
        remember_def token_and_secret_def)
  moreover have "oauth1TokenSecretMap w' ''T''
       = Some \<lparr>si_service = ''svc'', si_token = ''T'', si_secret = ''S''\<rparr>"
    using t by (simp add: remember_def ex_client_def)
  ultimately show ?thesis
    by (simp add: SetCurrentCredentials_def)
qed

text \<open>
  Claim C9 as amended: \<^verbatim>\<open>oauth1RequestToken\<close> removes no entry. Every key of the table before
  the exchange is a key after it, and the table after it is the one before, with the entry of
  the new token added (or replaced) when the new credentials have a token and a secret.
\<close>

theorem oauth1RequestToken_keeps_entries:
  assumes "oauth1RequestToken e p credentials verifier w = (c, body, err, w')"
  shows "dom (oauth1TokenSecretMap w) \<subseteq> dom (oauth1TokenSecretMap w') \<and>
         oauth1TokenSecretMap w' =
           (if token_and_secret c
            then (oauth1TokenSecretMap w)(token (the c) \<mapsto>
                   \<lparr>si_service = ServiceId p, si_token = token (the c),
                    si_secret = secret (the c)\<rparr>)
            else oauth1TokenSecretMap w)"
  using oauth1RequestToken_table[OF assms] by (auto simp: remember_def)

theorem oauth1RequestToken_keeps_entries_witness:
  "\<exists>c body err w'.
     oauth1RequestToken (ex_env ''oauth_token=A&oauth_token_secret=B'') ex_client
       \<lparr>token = ''T'', secret = []\<rparr> ''V''
       (remember ex_client \<lparr>token = ''T'', secret = ''S''\<rparr> ex_world) = (c, body, err, w') \<and>
     dom (oauth1TokenSecretMap (remember ex_client \<lparr>token = ''T'', secret = ''S''\<rparr> ex_world))
       \<subseteq> dom (oauth1TokenSecretMap w') \<and>
     oauth1TokenSecretMap w' ''T''
       = Some \<lparr>si_service = ''svc'', si_token = ''T'', si_secret = ''S''\<rparr>"
proof -
  let ?w = "remember ex_client \<lparr>token = ''T'', secret = ''S''\<rparr> ex_world"
  obtain req w' where
    r: "oauth1RequestToken (ex_env ''oauth_token=A&oauth_token_secret=B'') ex_client
           \<lparr>token = ''T'', secret = []\<rparr> ''V'' ?w
         = (Some \<lparr>token = ''A'', secret = ''B''\<rparr>, ''oauth_token=A&oauth_token_secret=B'', None, w')"
    using exchange_AB by blast
  from oauth1RequestToken_keeps_entries[OF r]
  have "dom (oauth1TokenSecretMap ?w) \<subseteq> dom (oauth1TokenSecretMap w')"
    and "oauth1TokenSecretMap w' ''T''
       = Some \<lparr>si_service = ''svc'', si_token = ''T'', si_secret = ''S''\<rparr>"
    by (auto simp add: token_and_secret_def remember_def ex_client_def)
  with r show ?thesis by blast
qed

text \<open>The secret that signs the exchange: found under a token that unescaping leaves as it
  is, and the secret passed in when the table has no entry for the unescaped token.\<close>

lemma unescape_plain:
  "CHR ''%'' \<notin> set s \<Longrightarrow> CHR ''+'' \<notin> set s \<Longrightarrow> unescape s = Inr s"
  by (induction s) auto

lemma oauth1RequestToken_cred_resolves:
  assumes "CHR ''%'' \<notin> set T" "CHR ''+'' \<notin> set T"
    and "oauth1TokenSecretMap w T = Some info" and "si_secret info \<noteq> []"
  shows "oauth1RequestToken_cred w \<lparr>token = T, secret = []\<rparr>
           = \<lparr>token = T, secret = si_secret info\<rparr>"
  using assms by (simp add: oauth1RequestToken_cred_def QueryUnescape_def unescape_plain)

lemma oauth1RequestToken_cred_fallback:
  assumes "oauth1TokenSecretMap w (fst (QueryUnescape (token credentials))) = None"
  shows "oauth1RequestToken_cred w credentials
           = \<lparr>token = fst (QueryUnescape (token credentials)), secret = secret credentials\<rparr>"
  using assms by (cases "secret credentials") (simp_all add: oauth1RequestToken_cred_def)

text \<open>What \<^const>\<open>getAuthToken\<close> returns and records when the provider answers with a token and a
  secret.\<close>

lemma getAuthToken_answered:
  assumes acc: "\<And>m u. NewRequest_error e m u = None"
    and ans: "\<And>rq. MakeRequest e p rq = (Some (Response (Some (body, rerr))), None)"
    and ps: "ParseRequestTokenResult p body = (Some c, perr)"
    and c: "token c \<noteq> []" "secret c \<noteq> []"
  obtains req w' where
    "getAuthToken e p w = Some (Some c, perr, w')"
    "sent w' = sent w @ [req]"
    "oauth1TokenSecretMap w' = oauth1TokenSecretMap (remember p c w)"
proof -
  obtain req w1 where
    s: "OAuth1MakeSyncRequest e p None [] (RequestUrlMethod p) (RequestUrl p) []
             (RequestUrlProtected p) w
         = (fst (MakeRequest e p req), snd (MakeRequest e p req), w1)"
    and fr: "sent w1 = sent w @ [req]" "oauth1TokenSecretMap w1 = oauth1TokenSecretMap w"
    using OAuth1MakeSyncRequest_accepted[OF acc] by metis
  have "getAuthToken e p w = Some (Some c, perr, remember p c w1)"
    using s ans ps c by (simp add: getAuthToken_def token_and_secret_def)
  moreover have "sent (remember p c w1) = sent w @ [req]"
    using fr by (simp add: remember_def)
  moreover have "oauth1TokenSecretMap (remember p c w1) = oauth1TokenSecretMap (remember p c w)"
    using fr by (simp add: remember_def)
  ultimately show ?thesis using that by blast
qed

lemma parse_a_plus_b:
  "defaultOAuth1ParseAuthToken ''oauth_token=a%2Bb&oauth_token_secret=s''
     = (Some \<lparr>token = ''a+b'', secret = ''s''\<rparr>, None)"
  by code_simp

lemma query_a_plus_b: "URL_Query ''oauth_token=a%2Bb'' = [(''oauth_token'', [''a+b''])]"
  by code_simp

text \<open>
  Claim C4: when the temporary credentials \<open>(T, S)\<close> were recorded on receipt, an exchange that
  passes \<open>T\<close> without a secret is signed with \<open>S\<close>. \<^verbatim>\<open>getAuthToken\<close> records the secret under the
  token as parsed, and \<^verbatim>\<open>oauth1ExchangeRequestTokenForAccess\<close> looks it up under the token of the
  callback; \<^verbatim>\<open>oauth1RequestToken\<close> looks it up under that token unescaped once more. For
  \<open>T = a+b\<close> (sent by the provider as \<^verbatim>\<open>a%2Bb\<close>, in the body and in the callback) the entry is
  recorded under \<^verbatim>\<open>a+b\<close> and looked up under \<^verbatim>\<open>a b\<close>: the exchange is signed with the token
  \<^verbatim>\<open>a b\<close> and the empty secret. In general, an entry recorded under \<open>T\<close> is missed whenever the
  table has none under \<open>T\<close> unescaped. For a token without \<^verbatim>\<open>%\<close> and \<^verbatim>\<open>+\<close> the claim holds
  (\<open>oauth1RequestToken_cred_resolves\<close>), and so does its fallback
  (\<open>oauth1RequestToken_cred_fallback\<close>).
\<close>

theorem oauth1RequestToken_cred_misses:
  assumes "oauth1TokenSecretMap w T = Some info"
    and "oauth1TokenSecretMap w (fst (QueryUnescape T)) = None"
  shows "oauth1RequestToken_cred w \<lparr>token = T, secret = []\<rparr>
           = \<lparr>token = fst (QueryUnescape T), secret = []\<rparr>"
  using assms by (simp add: oauth1RequestToken_cred_def)

theorem token_with_plus_loses_secret:
  "\<exists>w'. getAuthToken (ex_env ''oauth_token=a%2Bb&oauth_token_secret=s'') ex_client ex_world
           = Some (Some \<lparr>token = ''a+b'', secret = ''s''\<rparr>, None, w') \<and>
         oauth1TokenSecretMap w' ''a+b''
           = Some \<lparr>si_service = ''svc'', si_token = ''a+b'', si_secret = ''s''\<rparr> \<and>
         Values_Get (URL_Query ''oauth_token=a%2Bb'') ''oauth_token'' = ''a+b'' \<and>
         oauth1RequestToken_cred w' \<lparr>token = ''a+b'', secret = []\<rparr>
           = \<lparr>token = ''a b'', secret = []\<rparr>"
proof -
  have ps: "ParseRequestTokenResult ex_client ''oauth_token=a%2Bb&oauth_token_secret=s''
              = (Some \<lparr>token = ''a+b'', secret = ''s''\<rparr>, None)"
    by (simp add: ex_client_def parse_a_plus_b)
  obtain req w' where
    g: "getAuthToken (ex_env ''oauth_token=a%2Bb&oauth_token_secret=s'') ex_client ex_world
           = Some (Some \<lparr>token = ''a+b'', secret = ''s''\<rparr>, None, w')"
    and t: "oauth1TokenSecretMap w'
           = oauth1TokenSecretMap (remember ex_client \<lparr>token = ''a+b'', secret = ''s''\<rparr> ex_world)"
    using getAuthToken_answered[OF ex_env_simps(1) ex_env_simps(2) ps, of ex_world] by auto
  have un: "fst (QueryUnescape ''a+b'') = ''a b''"
    by (simp add: QueryUnescape_def)
  have here: "oauth1TokenSecretMap w' ''a+b''
           = Some \<lparr>si_service = ''svc'', si_token = ''a+b'', si_secret = ''s''\<rparr>"
    using t by (simp add: remember_def ex_client_def)
  have "oauth1TokenSecretMap w' (fst (QueryUnescape ''a+b'')) = None"
    using t un by (simp add: remember_def ex_world_def)
  from oauth1RequestToken_cred_misses[OF here this]
  have "oauth1RequestToken_cred w' \<lparr>token = ''a+b'', secret = []\<rparr>
           = \<lparr>token = ''a b'', secret = []\<rparr>"
    using un by simp
  moreover have "Values_Get (URL_Query ''oauth_token=a%2Bb'') ''oauth_token'' = ''a+b''"
    by (simp add: query_a_plus_b Values_Get_def Values_index_def)
  ultimately show ?thesis using g here by blast
qed

subsection \<open>Facts about signing\<close>

lemma Values_Get_Set: "Values_Get (Values_Set v k x) k = x"
  by (simp add: Values_Get_def Values_Set_def Values_index_def update_conv')

lemma SplitN2_first: "SplitN2 uri sep ! 0 = Cut_before uri sep"
proof (cases "sep \<in> set uri")
  case True
  then show ?thesis by (simp add: SplitN2_def)
next
  case False
  then have "SplitN2 uri sep ! 0 = uri"
    by (simp add: SplitN2_def)
  also have "uri = Cut_before uri sep"
    unfolding Cut_before_def using False by (induction uri) auto
  finally show ?thesis .
qed

text \<open>The parameter set has one entry per name.\<close>

lemma distinct_Values_Set: "distinct (map fst v) \<Longrightarrow> distinct (map fst (Values_Set v k x))"
  by (simp add: Values_Set_def distinct_update)

lemma distinct_Values_Add: "distinct (map fst v) \<Longrightarrow> distinct (map fst (Values_Add v k x))"
  by (simp add: Values_Add_def distinct_update)

lemma distinct_Values_Del: "distinct (map fst v) \<Longrightarrow> distinct (map fst (Values_Del v k))"
  by (simp add: Values_Del_def distinct_delete)

lemma distinct_add_values:
  "distinct (map fst v) \<Longrightarrow> distinct (map fst (add_values k arr v))"
  unfolding add_values_def
  by (induction arr arbitrary: v) (simp_all add: distinct_Values_Add)

lemma distinct_fold_add:
  "distinct (map fst v) \<Longrightarrow>
   distinct (map fst (fold (\<lambda>(k, arr) ps. add_values k arr ps) q v))"
  by (induction q arbitrary: v) (auto simp: distinct_add_values)

lemma distinct_fold_replace:
  "distinct (map fst v) \<Longrightarrow>
   distinct (map fst (fold (\<lambda>(k, arr) ps.
                 if length arr > 0 then add_values k arr (Values_Del ps k) else ps) q v))"
  by (induction q arbitrary: v) (auto simp: distinct_add_values distinct_Values_Del)

lemma distinct_oauth1PrepareRequest_params:
  "distinct (map fst (oauth1PrepareRequest_params e p credentials uri ap ts nonce))"
  unfolding oauth1PrepareRequest_params_def Let_def
  by (intro distinct_fold_replace)
     (auto intro!: distinct_fold_add distinct_Values_Set split: option.splits)

lemma pairs_of_simps [simp]:
  "pairs_of g [] = []"
  "pairs_of g (k # ks) = map (Pair k) (g k) @ pairs_of g ks"
  by (simp_all add: pairs_of_def)

lemma mset_pairs_of:
  "mset (pairs_of g ks) = (\<Sum>k\<in>#mset ks. mset (map (Pair k) (g k)))"
  by (induction ks) simp_all

lemma fst_pairs_of: "set (map fst (pairs_of g ks)) \<subseteq> set ks"
  by (induction ks) auto

lemma sorted_pairs_of: "sorted ks \<Longrightarrow> sorted (map fst (pairs_of g ks))"
proof (induction ks)
  case Nil
  show ?case by simp
next
  case (Cons k ks)
  have "\<forall>x\<in>set (map fst (pairs_of g ks)). k \<le> x"
    using fst_pairs_of[of g ks] Cons.prems by auto
  moreover have "sorted (map fst (map (Pair k) (g k)))"
    by (simp add: comp_def sorted_wrt_iff_nth_less)
  ultimately show ?case
    using Cons by (auto simp: sorted_append)
qed

lemma filter_pairs_of:
  "distinct ks \<Longrightarrow>
   filter (\<lambda>x. fst x = k) (pairs_of g ks) = (if k \<in> set ks then map (Pair k) (g k) else [])"
proof (induction ks)
  case Nil
  show ?case by simp
next
  case (Cons a ks)
  have same: "filter (\<lambda>x. fst x = k) (map (Pair a) (g a)) = (if a = k then map (Pair a) (g a) else [])"
    by (induction "g a") (auto simp: filter_map comp_def)
  show ?case using Cons same by auto
qed

lemma sort_key_pairs_of:
  assumes "distinct ks"
  shows "sort_key fst (pairs_of g ks) = pairs_of g (sort ks)"
proof (rule properties_for_sort_key)
  show "mset (pairs_of g (sort ks)) = mset (pairs_of g ks)"
    by (simp add: mset_pairs_of)
  show "sorted (map fst (pairs_of g (sort ks)))"
    by (simp add: sorted_pairs_of)
  fix x assume "x \<in> set (pairs_of g (sort ks))"
  have "filter (\<lambda>y. fst y = fst x) (pairs_of g (sort ks)) = filter (\<lambda>y. fst y = fst x) (pairs_of g ks)"
    using assms by (simp add: filter_pairs_of)
  then show "filter (\<lambda>y. fst x = fst y) (pairs_of g (sort ks))
         = filter (\<lambda>y. fst x = fst y) (pairs_of g ks)"
    by (simp add: eq_commute)
qed

lemma spec_pairs_pairs_of:
  "distinct (map fst ps) \<Longrightarrow> spec_pairs ps = pairs_of (Values_index ps) (map fst ps)"
proof -
  assume d: "distinct (map fst ps)"
  have "map (\<lambda>(k, vs). map (Pair k) vs) ps
          = map (\<lambda>k. map (Pair k) (Values_index ps k)) (map fst ps)"
    using d by (auto simp: Values_index_def)
  then show ?thesis by (simp only: spec_pairs_def pairs_of_def)
qed

lemma params_arr_spec:
  assumes "distinct (map fst ps)"
  shows "params_arr m ps
           = map (\<lambda>(k, v). oauthEncode m k @ ''='' @ oauthEncode m v) (sort_key fst (spec_pairs ps))"
proof -
  have "params_arr m ps
          = map (\<lambda>(k, v). oauthEncode m k @ ''='' @ oauthEncode m v)
              (pairs_of (Values_index ps) (sort (map fst ps)))"
    by (simp add: params_arr_def pairs_of_def getSortedKeys_def getKeys_def sort_Strings_def
        map_concat comp_def)
  then show ?thesis
    using assms by (simp add: spec_pairs_pairs_of sort_key_pairs_of)
qed

lemma Join2: "Join [a, b] sep = a @ sep @ b"
  by simp

lemma Join3: "Join [a, b, c] sep = a @ sep @ b @ sep @ c"
  by simp

lemma signature_message_spec:
  assumes "distinct (map fst ps)"
  shows "signature_message m method uri ps
           = method @ ''&'' @ oauthEncode m (TrimSpace (Cut_before uri CHR ''?'')) @ ''&'' @
             oauthEncode m (spec_parameter_string m ps)"
  using assms
  by (simp only: signature_message_def Let_def Join3 SplitN2_first params_arr_spec
      spec_parameter_string_def)

lemma signature_key_eq:
  "signature_key p credentials
     = ConsumerSecret p @ ''&'' @ (case credentials of None \<Rightarrow> [] | Some c \<Rightarrow> secret c)"
  by (cases credentials) (auto simp: signature_key_def)

lemma oauth1PrepareRequest_signature:
  "Values_Get (fst (oauth1PrepareRequest e p credentials method uri ap ts nonce w))
       ''oauth_signature''
     = TrimSpace (base64_Encode (hmac_sha1 e (signature_key p credentials)
         (signature_message (old_marks e) (if method = [] then GET else method) uri
            (oauth1PrepareRequest_params e p credentials uri ap
               (if IsZero ts then now e else ts)
               (if nonce = [] then fst (newNonce e w) else nonce)))))"
  by (cases "nonce = []")
     (simp_all add: oauth1PrepareRequest_def Let_def Values_Get_Set split: prod.splits)

lemma signature_message_method:
  assumes "CHR ''&'' \<notin> set meth"
  shows "takeWhile (\<lambda>c. c \<noteq> CHR ''&'') (signature_message m meth uri ps) = meth"
proof -
  have "takeWhile (\<lambda>c. c \<noteq> CHR ''&'') (meth @ CHR ''&'' # rest) = meth" for rest
    using assms by (induction meth) auto
  then show ?thesis
    by (simp add: signature_message_def Let_def)
qed

text \<open>An example: a token and a secret, a query in the URI, a parameter with two values that
  replaces the one of the query.\<close>

lemma ex_ts: "FormatInt10 (Unix \<lparr>sec = 63370164690, nsec = 0\<rparr>) = ''1234567890''"
  by (simp add: FormatInt10_def Unix_def digits10.simps)

lemma ex_query: "URL_Query ''b=1&a=0'' = [(''b'', [''1'']), (''a'', [''0''])]"
  by (simp add: URL_Query_def ParseQuery_def parseQuery.simps
        Cut_before_def Cut_after_def QueryUnescape_def Values_index_def Values_Add_def)

lemma ex_params:
  "oauth1PrepareRequest_params (ex_env []) ex_client (Some \<lparr>token = ''tok'', secret = ''sec''\<rparr>)
                ''http://example.com/r?b=1&a=0'' [(''a'', [''x y'', ''!''])]
                \<lparr>sec = 63370164690, nsec = 0\<rparr> ''abc123''
   = [(''oauth_consumer_key'', [''ck'']),
  (''oauth_signature_method'', [''HMAC-SHA1'']),
  (''oauth_timestamp'', [''1234567890'']), (''oauth_nonce'', [''abc123'']),
  (''oauth_version'', [''1.0'']), (''oauth_token'', [''tok'']),
  (''b'', [''1'']), (''a'', [''x y'', ''!''])]"
  by (simp add: oauth1PrepareRequest_params_def ex_ts ex_env_def ex_client_def Cut_after_def Cut_before_def
      ex_query Values_Set_def Values_Add_def Values_Del_def Values_index_def add_values_def)


lemma ex_sorted:
  "sort_key fst (spec_pairs [(''oauth_consumer_key'', [''ck'']),
  (''oauth_signature_method'', [''HMAC-SHA1'']),
  (''oauth_timestamp'', [''1234567890'']), (''oauth_nonce'', [''abc123'']),
  (''oauth_version'', [''1.0'']), (''oauth_token'', [''tok'']),
  (''b'', [''1'']), (''a'', [''x y'', ''!''])])
  = [(''a'', ''x y''), (''a'', ''!''), (''b'', ''1''), (''oauth_consumer_key'', ''ck''),
     (''oauth_nonce'', ''abc123''), (''oauth_signature_method'', ''HMAC-SHA1''),
     (''oauth_timestamp'', ''1234567890''), (''oauth_token'', ''tok''), (''oauth_version'', ''1.0'')]"
  by (simp add: spec_pairs_def)

lemma ex_trim: "TrimSpace ''http://example.com/r'' = ''http://example.com/r''"
  by (simp add: TrimSpace_def trim_leading.simps space_encodings_def)

lemma ex_enc_url: "oauthEncode False ''http://example.com/r'' = ''http%3A%2F%2Fexample.com%2Fr''"
  by (simp add: oauthEncode_bytes enc1_def unreserved_def alphanum_def percent_def upperhex_def)


lemma ex_parameter_string:
  "spec_parameter_string False
     (oauth1PrepareRequest_params (ex_env []) ex_client (Some \<lparr>token = ''tok'', secret = ''sec''\<rparr>)
                ''http://example.com/r?b=1&a=0'' [(''a'', [''x y'', ''!''])]
                \<lparr>sec = 63370164690, nsec = 0\<rparr> ''abc123'')
   = ''a=x+y&a=%21&b=1&oauth_consumer_key=ck&oauth_nonce=abc123&oauth_signature_method=HMAC-SHA1&oauth_timestamp=1234567890&oauth_token=tok&oauth_version=1.0''"
  unfolding ex_params spec_parameter_string_def ex_sorted
  by (simp add: oauthEncode_bytes enc1_def unreserved_def alphanum_def percent_def upperhex_def)

lemma ex_enc_parameter_string:
  "oauthEncode False ''a=x+y&a=%21&b=1&oauth_consumer_key=ck&oauth_nonce=abc123&oauth_signature_method=HMAC-SHA1&oauth_timestamp=1234567890&oauth_token=tok&oauth_version=1.0''
   = ''a%3Dx%2By%26a%3D%2521%26b%3D1%26oauth_consumer_key%3Dck%26oauth_nonce%3Dabc123%26oauth_signature_method%3DHMAC-SHA1%26oauth_timestamp%3D1234567890%26oauth_token%3Dtok%26oauth_version%3D1.0''"
  by (simp add: oauthEncode_bytes enc1_def unreserved_def alphanum_def percent_def upperhex_def)

lemma ex_key: "signature_key ex_client (Some \<lparr>token = ''tok'', secret = ''sec''\<rparr>) = ''cs&sec''"
  by (simp add: signature_key_def ex_client_def)

lemma ex_cut: "Cut_before ''http://example.com/r?b=1&a=0'' CHR ''?'' = ''http://example.com/r''"
  by (simp add: Cut_before_def)

lemma base64_post: "TrimSpace (base64_Encode ''post'') = ''cG9zdA==''"
  by code_simp
lemma base64_POST: "TrimSpace (base64_Encode (ToUpper ''post'')) = ''UE9TVA==''"
  by code_simp

lemma base64_raw_key: "TrimSpace (base64_Encode ''c/s&s&x'') = ''Yy9zJnMmeA==''"
  by code_simp
lemma base64_encoded_key: "TrimSpace (base64_Encode (oauthEncode False ''c/s'' @ ''&'' @ oauthEncode False ''s&x''))
   = ''YyUyRnMmcyUyNng=''"
  by code_simp

text \<open>
  Claim C1 says that the method at the head of the base string is uppercase.
  \<^verbatim>\<open>oauth1PrepareRequest\<close> takes the method as it is given (\<^verbatim>\<open>GET\<close> for the empty one); only
  \<^verbatim>\<open>oauth1CreateAuthorizedRequest\<close> applies \<^verbatim>\<open>strings.ToUpper\<close> before it calls down. With the
  part of the message before its first \<^verbatim>\<open>&\<close> in the place of the digest, the method \<^verbatim>\<open>post\<close>
  gives the signature of \<^verbatim>\<open>post\<close>, not of \<^verbatim>\<open>POST\<close>.
\<close>

theorem method_is_not_uppercased:
  "Values_Get (fst (oauth1PrepareRequest
        ((ex_env [])\<lparr>hmac_sha1 := \<lambda>key msg. takeWhile (\<lambda>c. c \<noteq> CHR ''&'') msg\<rparr>)
        ex_client None ''post'' ''http://example.com/r'' [] Time_zero [] ex_world))
       ''oauth_signature''
     = TrimSpace (base64_Encode ''post'') \<and>
   TrimSpace (base64_Encode ''post'') \<noteq> TrimSpace (base64_Encode (ToUpper ''post''))"
proof -
  have "CHR ''&'' \<notin> set ''post''" by simp
  from signature_message_method[OF this]
  have "Values_Get (fst (oauth1PrepareRequest
        ((ex_env [])\<lparr>hmac_sha1 := \<lambda>key msg. takeWhile (\<lambda>c. c \<noteq> CHR ''&'') msg\<rparr>)
        ex_client None ''post'' ''http://example.com/r'' [] Time_zero [] ex_world))
       ''oauth_signature''
     = TrimSpace (base64_Encode ''post'')"
    by (simp add: oauth1PrepareRequest_signature)
  moreover have "TrimSpace (base64_Encode ''post'') \<noteq> TrimSpace (base64_Encode (ToUpper ''post''))"
    by (simp only: base64_post base64_POST) simp
  ultimately show ?thesis by (rule conjI)
qed

text \<open>
  Claim C1 as amended: for every method, URI, credentials, parameters, time stamp and nonce,
  \<^verbatim>\<open>oauth1PrepareRequest\<close> signs, with HMAC under its key, the method as given (\<^verbatim>\<open>GET\<close> when
  empty), the encoded URI up to its first \<^verbatim>\<open>?\<close> with surrounding white space trimmed, and the
  encoded parameter string, joined by \<^verbatim>\<open>&\<close>; the parameter string is the one of the
  specification (\<^const>\<open>spec_parameter_string\<close>) for the parameter set assembled: names in
  byte-wise order, every value of a name a pair of its own, names and values encoded and
  joined by \<^verbatim>\<open>=\<close>, pairs joined by \<^verbatim>\<open>&\<close>. The signature is the base64 text of the digest.
\<close>

theorem oauth1PrepareRequest_base_string:
  "Values_Get (fst (oauth1PrepareRequest e p credentials method uri ap ts nonce w))
       ''oauth_signature''
     = TrimSpace (base64_Encode (hmac_sha1 e (signature_key p credentials)
         ((if method = [] then GET else method) @ ''&'' @
          oauthEncode (old_marks e) (TrimSpace (Cut_before uri CHR ''?'')) @ ''&'' @
          oauthEncode (old_marks e)
            (spec_parameter_string (old_marks e)
               (oauth1PrepareRequest_params e p credentials uri ap
                  (if IsZero ts then now e else ts)
                  (if nonce = [] then fst (newNonce e w) else nonce))))))"
  by (simp only: oauth1PrepareRequest_signature
      signature_message_spec[OF distinct_oauth1PrepareRequest_params])

theorem oauth1PrepareRequest_base_string_witness:
  "Values_Get (fst (oauth1PrepareRequest (ex_env []) ex_client
        (Some \<lparr>token = ''tok'', secret = ''sec''\<rparr>) ''POST'' ''http://example.com/r?b=1&a=0''
        [(''a'', [''x y'', ''!''])] \<lparr>sec = 63370164690, nsec = 0\<rparr> ''abc123'' ex_world))
       ''oauth_signature''
     = TrimSpace (base64_Encode (''cs&sec'' @ ''#'' @
         ''POST&http%3A%2F%2Fexample.com%2Fr&'' @
         ''a%3Dx%2By%26a%3D%2521%26b%3D1%26oauth_consumer_key%3Dck%26oauth_nonce%3Dabc123%26oauth_signature_method%3DHMAC-SHA1%26oauth_timestamp%3D1234567890%26oauth_token%3Dtok%26oauth_version%3D1.0''))"
proof -
  have nz: "\<not> IsZero \<lparr>sec = 63370164690, nsec = 0\<rparr>"
    by (simp add: IsZero_def)
  have env: "old_marks (ex_env []) = False" "hmac_sha1 (ex_env []) = (\<lambda>key msg. key @ ''#'' @ msg)"
    by (simp_all add: ex_env_def)
  from oauth1PrepareRequest_base_string[of "ex_env []" ex_client
      "Some \<lparr>token = ''tok'', secret = ''sec''\<rparr>" "''POST''" "''http://example.com/r?b=1&a=0''"
      "[(''a'', [''x y'', ''!''])]" "\<lparr>sec = 63370164690, nsec = 0\<rparr>" "''abc123''" ex_world]
  show ?thesis
    unfolding env ex_key ex_cut ex_trim ex_enc_url
    by (simp add: nz ex_parameter_string ex_enc_parameter_string)
qed

text \<open>
  Claim C2 says that the key is the encoded consumer secret and the encoded token secret.
  The program joins the two secrets as they are. With the key in the place of the digest, the
  consumer secret \<^verbatim>\<open>c/s\<close> and the token secret \<^verbatim>\<open>s&x\<close> give the signature of \<^verbatim>\<open>c/s&s&x\<close>, not of
  \<^verbatim>\<open>c%2Fs&s%26x\<close>.
\<close>

theorem key_is_not_encoded:
  "Values_Get (fst (oauth1PrepareRequest
        ((ex_env [])\<lparr>hmac_sha1 := \<lambda>key msg. key\<rparr>)
        (ex_client\<lparr>ConsumerSecret := ''c/s''\<rparr>) (Some \<lparr>token = ''t'', secret = ''s&x''\<rparr>)
        ''GET'' ''http://example.com/r'' [] Time_zero [] ex_world))
       ''oauth_signature''
     = TrimSpace (base64_Encode ''c/s&s&x'') \<and>
   TrimSpace (base64_Encode ''c/s&s&x'')
     \<noteq> TrimSpace (base64_Encode (oauthEncode False ''c/s'' @ ''&'' @ oauthEncode False ''s&x''))"
proof -
  have "Values_Get (fst (oauth1PrepareRequest
        ((ex_env [])\<lparr>hmac_sha1 := \<lambda>key msg. key\<rparr>)
        (ex_client\<lparr>ConsumerSecret := ''c/s''\<rparr>) (Some \<lparr>token = ''t'', secret = ''s&x''\<rparr>)
        ''GET'' ''http://example.com/r'' [] Time_zero [] ex_world))
       ''oauth_signature''
     = TrimSpace (base64_Encode ''c/s&s&x'')"
    by (simp add: oauth1PrepareRequest_signature signature_key_eq)
  moreover have "TrimSpace (base64_Encode ''c/s&s&x'')
     \<noteq> TrimSpace (base64_Encode (oauthEncode False ''c/s'' @ ''&'' @ oauthEncode False ''s&x''))"
    by (simp only: base64_raw_key base64_encoded_key) simp
  ultimately show ?thesis by (rule conjI)
qed

text \<open>
  Claim C2 as amended: the key of the HMAC is the consumer secret, \<^verbatim>\<open>&\<close>, and the secret of the
  credentials, neither of them encoded; for \<^verbatim>\<open>nil\<close> credentials and for credentials with an
  empty secret the second part is empty and the \<^verbatim>\<open>&\<close> is still there.
\<close>

theorem oauth1PrepareRequest_key:
  "Values_Get (fst (oauth1PrepareRequest e p credentials method uri ap ts nonce w))
       ''oauth_signature''
     = TrimSpace (base64_Encode (hmac_sha1 e
         (ConsumerSecret p @ ''&'' @ (case credentials of None \<Rightarrow> [] | Some c \<Rightarrow> secret c))
         (signature_message (old_marks e) (if method = [] then GET else method) uri
            (oauth1PrepareRequest_params e p credentials uri ap
               (if IsZero ts then now e else ts)
               (if nonce = [] then fst (newNonce e w) else nonce))))) \<and>
   signature_key p None = ConsumerSecret p @ ''&'' \<and>
   signature_key p (Some \<lparr>token = t, secret = []\<rparr>) = ConsumerSecret p @ ''&''"
  by (simp add: oauth1PrepareRequest_signature signature_key_eq)

theorem oauth1PrepareRequest_key_witness:
  "Values_Get (fst (oauth1PrepareRequest ((ex_env [])\<lparr>hmac_sha1 := \<lambda>key msg. key\<rparr>) ex_client
        None ''GET'' ''http://example.com/r'' [] Time_zero [] ex_world)) ''oauth_signature''
     = TrimSpace (base64_Encode ''cs&'') \<and>
   signature_key ex_client None = ''cs&'' \<and>
   signature_key ex_client (Some \<lparr>token = ''t'', secret = []\<rparr>) = ''cs&''"
  using oauth1PrepareRequest_key[of "(ex_env [])\<lparr>hmac_sha1 := \<lambda>key msg. key\<rparr>" ex_client None
      "''GET''" "''http://example.com/r''" "[]" Time_zero "[]" ex_world "''t''"]
  by (simp add: ex_client_def)

end
